theory Spec2Isabelle
  imports Main "HOL-Library.Word"
begin

section \<open>Machine integers and errors\<close>

text \<open>
  The only runtime datum of the language is a sequence of C++ \<^verbatim>\<open>int\<close>s, modelled as
  32-bit words read in two's complement (\<open>sint\<close>).  Sizes and indices (\<^verbatim>\<open>size_t\<close>) are
  natural numbers.  Every \<^verbatim>\<open>throw\<close> site of the sources is one constructor of \<open>error\<close>;
  reads and writes that C++ leaves undefined are the value \<open>UndefinedBehaviour\<close>.
\<close>

type_synonym cint = "32 word"

datatype error =
    OutOfFuel
  | UndefinedBehaviour
  | Exited cint
  | UnexpectedCharacter char
  | UnexpectedEscape char
  | UnexpectedEOFError string string
  | UnexpectedTokenError string string string
  | UnexpectedValue string
  | UnexpectedIntLiteral
  | MoreRightThanLeft
  | EmptyExpression
  | InvalidArrayExpression
  | StoiInvalidArgument
  | StoiOutOfRange
  | FailedToOpenFile string
  | DifferentSizes
  | CannotSetMinimum
  | CannotSetLength
  | StaticWithoutValue
  | UndefinedVariable string
  | UndefinedVariableForAssignment string
  | NotDefined string
  | AppendExpectsOne
  | SqrtExpectsZero
  | SizeExpectsZero
  | UnknownMethod string
  | BadArrayBound
  | RangeUpperBelowLower
  | RangeBoundsTooLarge
  | ArityMismatch string nat nat
  | BuiltinArity string
  | RangeArgumentSize nat
  | RangeArgumentNegative
  | UndefinedFunction string
  | ErrorInterpreting string
  | Interrupted
  | BadOptionalAccess
  | Usage

section \<open>Runtime values\<close>

text \<open>
  \<^verbatim>\<open>struct DynamicArray { std::unique_ptr<int[]> data; size_t size; }\<close> is the list of its
  elements.  \<^verbatim>\<open>class Value\<close> holds a \<^verbatim>\<open>std::variant<std::vector<int>, DynamicArray>\<close> and the
  field \<^verbatim>\<open>minimum\<close>.
\<close>

datatype storage = Vector "cint list" | Dynamic "cint list"

datatype Value = Value (storage: storage) (minimum: nat)

text \<open>\<^verbatim>\<open>DynamicArray::fromValue\<close>: both alternatives are copied element by element.\<close>

fun fromValue :: "Value \<Rightarrow> cint list" where
  "fromValue (Value (Vector xs) m) = xs"
| "fromValue (Value (Dynamic xs) m) = xs"

definition getSize :: "Value \<Rightarrow> nat" where
  "getSize v = length (fromValue v)"

definition sameSize :: "Value \<Rightarrow> Value \<Rightarrow> bool" where
  "sameSize v other = (length (fromValue v) = length (fromValue other))"

subsection \<open>Comparison loops of \<^verbatim>\<open>DynamicArray\<close>\<close>

text \<open>
  Each operator first returns \<^verbatim>\<open>false\<close> on a size mismatch and then walks the indices,
  returning \<^verbatim>\<open>false\<close> at the first pair that hits the test written in the loop.
\<close>

fun all_pairs :: "(cint \<Rightarrow> cint \<Rightarrow> bool) \<Rightarrow> cint list \<Rightarrow> cint list \<Rightarrow> bool" where
  "all_pairs bad (x # xs) (y # ys) = (if bad x y then False else all_pairs bad xs ys)"
| "all_pairs bad _ _ = True"

definition DynamicArray_eq :: "cint list \<Rightarrow> cint list \<Rightarrow> bool" where
  "DynamicArray_eq a other =
     (if length a \<noteq> length other then False else all_pairs (\<lambda>x y. x \<noteq> y) a other)"

definition DynamicArray_ne :: "cint list \<Rightarrow> cint list \<Rightarrow> bool" where
  "DynamicArray_ne a other =
     (if length a \<noteq> length other then False else all_pairs (\<lambda>x y. x = y) a other)"

definition DynamicArray_lt :: "cint list \<Rightarrow> cint list \<Rightarrow> bool" where
  "DynamicArray_lt a other =
     (if length a \<noteq> length other then False else all_pairs (\<lambda>x y. y \<le>s x) a other)"

definition DynamicArray_le :: "cint list \<Rightarrow> cint list \<Rightarrow> bool" where
  "DynamicArray_le a other =
     (if length a \<noteq> length other then False else all_pairs (\<lambda>x y. y <s x) a other)"

definition DynamicArray_gt :: "cint list \<Rightarrow> cint list \<Rightarrow> bool" where
  "DynamicArray_gt a other =
     (if length a \<noteq> length other then False else all_pairs (\<lambda>x y. x \<le>s y) a other)"

definition DynamicArray_ge :: "cint list \<Rightarrow> cint list \<Rightarrow> bool" where
  "DynamicArray_ge a other =
     (if length a \<noteq> length other then False else all_pairs (\<lambda>x y. x <s y) a other)"

definition Value_eq :: "Value \<Rightarrow> Value \<Rightarrow> bool" where
  "Value_eq v other =
     (if \<not> sameSize v other then False else DynamicArray_eq (fromValue v) (fromValue other))"

definition Value_ne :: "Value \<Rightarrow> Value \<Rightarrow> bool" where
  "Value_ne v other =
     (if \<not> sameSize v other then False else DynamicArray_ne (fromValue v) (fromValue other))"

definition Value_lt :: "Value \<Rightarrow> Value \<Rightarrow> bool" where
  "Value_lt v other =
     (if \<not> sameSize v other then False else DynamicArray_lt (fromValue v) (fromValue other))"

definition Value_le :: "Value \<Rightarrow> Value \<Rightarrow> bool" where
  "Value_le v other =
     (if \<not> sameSize v other then False else DynamicArray_le (fromValue v) (fromValue other))"

definition Value_gt :: "Value \<Rightarrow> Value \<Rightarrow> bool" where
  "Value_gt v other =
     (if \<not> sameSize v other then False else DynamicArray_gt (fromValue v) (fromValue other))"

definition Value_ge :: "Value \<Rightarrow> Value \<Rightarrow> bool" where
  "Value_ge v other =
     (if \<not> sameSize v other then False else DynamicArray_ge (fromValue v) (fromValue other))"

subsection \<open>Arithmetic\<close>

text \<open>
  Pointwise on equal sizes.  \<^verbatim>\<open>+\<close>, \<^verbatim>\<open>-\<close> and \<^verbatim>\<open>*\<close> are taken to wrap around; the
  quotient truncates towards zero, and a zero divisor and \<^verbatim>\<open>INT_MIN / -1\<close> are undefined.
\<close>

definition cdiv :: "cint \<Rightarrow> cint \<Rightarrow> error + cint" where
  "cdiv x y =
     (if y = 0 \<or> (x = - (2 ^ 31) \<and> y = - 1) then Inl UndefinedBehaviour
      else Inr (word_of_int (sgn (sint x) * sgn (sint y) * (\<bar>sint x\<bar> div \<bar>sint y\<bar>))))"

fun div_loop :: "cint list \<Rightarrow> cint list \<Rightarrow> error + cint list" where
  "div_loop (x # xs) (y # ys) =
     (case cdiv x y of
        Inl e \<Rightarrow> Inl e
      | Inr q \<Rightarrow> (case div_loop xs ys of Inl e \<Rightarrow> Inl e | Inr qs \<Rightarrow> Inr (q # qs)))"
| "div_loop _ _ = Inr []"

definition Value_add :: "Value \<Rightarrow> Value \<Rightarrow> error + Value" where
  "Value_add v other =
     (if \<not> sameSize v other then Inl DifferentSizes
      else Inr (Value (Dynamic (map2 (+) (fromValue v) (fromValue other))) (getSize v)))"

definition Value_sub :: "Value \<Rightarrow> Value \<Rightarrow> error + Value" where
  "Value_sub v other =
     (if \<not> sameSize v other then Inl DifferentSizes
      else Inr (Value (Dynamic (map2 (-) (fromValue v) (fromValue other))) (getSize v)))"

definition Value_mul :: "Value \<Rightarrow> Value \<Rightarrow> error + Value" where
  "Value_mul v other =
     (if \<not> sameSize v other then Inl DifferentSizes
      else Inr (Value (Dynamic (map2 (*) (fromValue v) (fromValue other))) (getSize v)))"

definition Value_div :: "Value \<Rightarrow> Value \<Rightarrow> error + Value" where
  "Value_div v other =
     (if \<not> sameSize v other then Inl DifferentSizes
      else (case div_loop (fromValue v) (fromValue other) of
              Inl e \<Rightarrow> Inl e
            | Inr qs \<Rightarrow> Inr (Value (Dynamic qs) (getSize v))))"

subsection \<open>Assignment and construction from a descriptor\<close>

text \<open>
  \<^verbatim>\<open>Value::operator=\<close>.  The destination keeps its \<^verbatim>\<open>minimum\<close> in every branch.
  A vector destination takes a vector source whole; from a \<^verbatim>\<open>DynamicArray\<close> source it
  overwrites its own indices (with 0 where \<^verbatim>\<open>at\<close> throws) and then appends the rest.
  A \<^verbatim>\<open>DynamicArray\<close> destination copies the first \<^verbatim>\<open>minimum\<close> elements through unchecked
  \<^verbatim>\<open>operator[]\<close>, which is undefined beyond either array.
\<close>

fun assign :: "Value \<Rightarrow> Value \<Rightarrow> error + Value" where
  "assign (Value (Vector xs) m) (Value (Vector ys) om) =
     (if m > length ys then Inl CannotSetMinimum else Inr (Value (Vector ys) m))"
| "assign (Value (Vector xs) m) (Value (Dynamic ys) om) =
     (if m > om then Inl CannotSetMinimum
      else Inr (Value (Vector (map (\<lambda>i. if i < length ys then ys ! i else 0) [0..<length xs]
                               @ drop (length xs) ys)) m))"
| "assign (Value (Dynamic xs) m) (Value (Vector ys) om) =
     (if m \<noteq> length ys then Inl CannotSetLength
      else if m > length xs then Inl UndefinedBehaviour
      else Inr (Value (Dynamic (take m ys @ drop m xs)) m))"
| "assign (Value (Dynamic xs) m) (Value (Dynamic ys) om) =
     (if m \<noteq> om then Inl CannotSetLength
      else if m > length xs \<or> m > length ys then Inl UndefinedBehaviour
      else Inr (Value (Dynamic (take m ys @ drop m xs)) m))"

text \<open>
  \<^verbatim>\<open>class ArrayDescriptor { std::optional<size_t> size; bool canGrow; }\<close> and
  \<^verbatim>\<open>Value::fromDescriptor\<close>.  In the growable branch the vector is only \<^verbatim>\<open>reserve\<close>d, so it
  stays empty and the minimum passed to the constructor is \<^verbatim>\<open>dynamicArray.size()\<close>, 0.
\<close>

datatype ArrayDescriptor = ArrayDescriptor (getDescSize: "nat option") (getCanGrow: bool)

fun fromDescriptor :: "ArrayDescriptor \<Rightarrow> Value option \<Rightarrow> error + Value" where
  "fromDescriptor (ArrayDescriptor sz True) val =
     (let dynamicArray = [];
          result = Value (Vector dynamicArray) (length dynamicArray)
      in case val of Some v \<Rightarrow> assign result v | None \<Rightarrow> Inr result)"
| "fromDescriptor (ArrayDescriptor (Some n) False) val =
     (let result = Value (Dynamic (replicate n 0)) n
      in case val of Some v \<Rightarrow> assign result v | None \<Rightarrow> Inr result)"
| "fromDescriptor (ArrayDescriptor None False) val =
     (case val of Some v \<Rightarrow> Inr v | None \<Rightarrow> Inl StaticWithoutValue)"

section \<open>Lexer\<close>

text \<open>
  \<^verbatim>\<open>std::isalpha\<close>, \<^verbatim>\<open>std::isdigit\<close>, \<^verbatim>\<open>std::isalnum\<close> and \<^verbatim>\<open>std::isspace\<close> in the C locale,
  on the byte value of the character.
\<close>

definition isalpha :: "char \<Rightarrow> bool" where
  "isalpha c = (let n = (of_char c :: nat) in (65 \<le> n \<and> n \<le> 90) \<or> (97 \<le> n \<and> n \<le> 122))"

definition isdigit :: "char \<Rightarrow> bool" where
  "isdigit c = (let n = (of_char c :: nat) in 48 \<le> n \<and> n \<le> 57)"

definition isalnum :: "char \<Rightarrow> bool" where
  "isalnum c = (isalpha c \<or> isdigit c)"

definition isspace :: "char \<Rightarrow> bool" where
  "isspace c = (let n = (of_char c :: nat) in n = 32 \<or> (9 \<le> n \<and> n \<le> 13))"

datatype TokenType = IDENTIFIER | INT_LIT | STRING_LIT | SYMBOL

datatype Token = Token (getType: TokenType) (getValue: string)

definition symbols :: string where
  "symbols = ''[]-><{}:+!=*/%;().,''"

text \<open>
  \<^verbatim>\<open>interpretEscapes\<close>: a backslash that is not the last character consumes the next one,
  which must be one of \<^verbatim>\<open>n t r \ " ' 0\<close>.
\<close>

fun interpretEscapes :: "string \<Rightarrow> error + string" where
  "interpretEscapes [] = Inr []"
| "interpretEscapes [c] = Inr [c]"
| "interpretEscapes (c # next # raw) =
     (if c = CHR 0x5C then
        (if next \<in> set ''ntr'' \<or> next = CHR 0x5C \<or> next = CHR 0x22 \<or> next = CHR 0x27
            \<or> next = CHR ''0'' then
           (case interpretEscapes raw of
              Inl e \<Rightarrow> Inl e
            | Inr result \<Rightarrow>
                Inr ((if next = CHR ''n'' then CHR 0x0A
                      else if next = CHR ''t'' then CHR 0x09
                      else if next = CHR ''r'' then CHR 0x0D
                      else if next = CHR ''0'' then CHR 0x00
                      else next) # result))
         else Inl (UnexpectedEscape next))
      else (case interpretEscapes (next # raw) of
              Inl e \<Rightarrow> Inl e
            | Inr result \<Rightarrow> Inr (c # result)))"

text \<open>
  The inner loop of the string-literal branch of \<^verbatim>\<open>tokenize\<close>: it collects characters up
  to the first double quote whose predecessor \<^verbatim>\<open>code[i - 1]\<close> is not a backslash, and
  returns the raw literal with the text after the closing quote; \<open>None\<close> when the code ends
  first.
\<close>

fun scan_string :: "char \<Rightarrow> string \<Rightarrow> (string \<times> string) option" where
  "scan_string prev [] = None"
| "scan_string prev (c # cs) =
     (if c \<noteq> CHR 0x22 \<or> prev = CHR 0x5C then
        (case scan_string c cs of
           None \<Rightarrow> None
         | Some (string_lit, rest) \<Rightarrow> Some (c # string_lit, rest))
      else Some ([], cs))"

lemma scan_string_shorter:
  "scan_string prev cs = Some (lit, rest) \<Longrightarrow> length rest < length cs"
  by (induction prev cs arbitrary: lit rest rule: scan_string.induct)
     (fastforce split: if_splits option.splits)+

lemma isalpha_isalnum: "isalpha c \<Longrightarrow> isalnum c"
  by (simp add: isalnum_def)

text \<open>
  The main loop of \<^verbatim>\<open>tokenize\<close>, as a function of the code from index \<^verbatim>\<open>i\<close> on.
  \<^verbatim>\<open>collectWhile\<close> appends the longest run of characters that satisfy the predicate and
  leaves \<^verbatim>\<open>i\<close> on the last of them, so the loop goes on after the run: \<open>takeWhile\<close> and
  \<open>dropWhile\<close>.  An exception discards the tokens collected so far.  The line and column
  counters only feed the texts of the error messages and are left out.
\<close>

definition emplace_back :: "Token \<Rightarrow> error + Token list \<Rightarrow> error + Token list" where
  "emplace_back t r = (case r of Inl e \<Rightarrow> Inl e | Inr ts \<Rightarrow> Inr (t # ts))"

function tokenize :: "string \<Rightarrow> error + Token list" where
  "tokenize [] = Inr []"
| "tokenize (c # code) =
     (if isalpha c then
        emplace_back (Token IDENTIFIER (takeWhile isalnum (c # code)))
          (tokenize (dropWhile isalnum (c # code)))
      else if isdigit c \<or> (c = CHR ''-'' \<and> code \<noteq> [] \<and> isdigit (hd code)) then
        emplace_back (Token INT_LIT (c # takeWhile isdigit code))
          (tokenize (dropWhile isdigit code))
      else if c = CHR 0x22 then
        (case scan_string c code of
           None \<Rightarrow> Inl (UnexpectedEOFError ''String Literal'' [CHR 0x22])
         | Some (string_lit, rest) \<Rightarrow>
             (case interpretEscapes string_lit of
                Inl e \<Rightarrow> Inl e
              | Inr lit \<Rightarrow> emplace_back (Token STRING_LIT lit) (tokenize rest)))
      else if c = CHR 0x0A then tokenize code
      else if c \<in> set symbols then emplace_back (Token SYMBOL [c]) (tokenize code)
      else if \<not> isspace c then Inl (UnexpectedCharacter c)
      else tokenize code)"
  by pat_completeness auto
termination
proof (relation "measure length")
  fix c :: char and code :: string
  assume "isalpha c"
  then have "dropWhile isalnum (c # code) = dropWhile isalnum code"
    by (simp add: isalpha_isalnum)
  then show "(dropWhile isalnum (c # code), c # code) \<in> measure length"
    by (simp add: length_dropWhile_le le_imp_less_Suc)
next
  fix c :: char and code :: string
  show "(dropWhile isdigit code, c # code) \<in> measure length"
    by (simp add: length_dropWhile_le le_imp_less_Suc)
next
  fix c :: char and code :: string and x2 x y
  assume "scan_string c code = Some x2" "(x, y) = x2"
  then have "length y < length code"
    using scan_string_shorter [of c code x y] by simp
  then show "(y, c # code) \<in> measure length"
    by simp
qed simp_all

section \<open>Abstract syntax\<close>

text \<open>
  The node classes of \<^verbatim>\<open>parser/parse.h\<close>.  A \<^verbatim>\<open>std::variant\<close> is a datatype with one
  constructor per alternative, a \<^verbatim>\<open>std::optional\<close> an \<open>option\<close>, a \<^verbatim>\<open>std::vector\<close> a list.
  The children of an \<^verbatim>\<open>ArithmeticNode\<close> are \<^verbatim>\<open>shared_ptr\<close>s that the parser may leave
  null, hence \<open>option\<close>s.
\<close>

datatype ArithmeticType =
  TYPE_LEFT_PARENTHESIS | TYPE_ADDITION | TYPE_SUBTRACTION | TYPE_MULTIPLICATION | TYPE_DIVISION

datatype ExpressionNode = ExpressionNode (getPrimary: Primary) (getPostfix: "Postfix list")
  and Primary = Arithmetic ArithmeticNode | Array ArrayNode
  and ArithmeticNode =
    ArithmeticNode (left: "ExpressionNode option") (right: "ExpressionNode option")
      (atype: ArithmeticType)
  and ArrayNode = Ints "cint list" | Name string | Call FunctionCallNode
  and FunctionCallNode =
    FunctionCallNode (getIdentifier: string) (getParameters: "ExpressionNode list")
  and Postfix =
    ArrayRangeNode (getStart: "Bound option") (getEnd: "Bound option")
  | MethodNode (methodIdentifier: string) (methodParameters: "ExpressionNode list")
  and Bound = BoundSize nat | BoundExpression ExpressionNode

datatype VariableDeclarationNode =
  VariableDeclarationNode (declIdentifier: string) (declDescriptor: ArrayDescriptor)
    (declValue: "ExpressionNode option")

datatype VariableAssignmentNode =
  VariableAssignmentNode (getLeft: string) (getRight: ExpressionNode)

datatype VariableBindingNode =
  Declaration VariableDeclarationNode | Assignment VariableAssignmentNode

datatype CompareType = EQ | NE | LT | LE | GT | GE

datatype IfCompareNode =
  IfCompareNode (cmpType: CompareType) (cmpLeft: ExpressionNode) (cmpRight: ExpressionNode)

datatype Condition = Compare IfCompareNode | IfDeclaration VariableDeclarationNode

datatype StatementNode =
    Binding VariableBindingNode
  | ForLoop ForLoopNode
  | IfStatement IfNode
  | WhileStatement WhileNode
  | CallStatement FunctionCallNode
  | ReturnStatement ExpressionNode
  and ForLoopNode =
    ForLoopNode (getElement: string) (getIterable: ExpressionNode)
      (forBody: "StatementNode list")
  and IfNode =
    IfNode (ifCondition: Condition) (ifBody: "StatementNode list")
      (getElseIfBranches: "IfNode option") (getElseBody: "StatementNode list option")
  and WhileNode = WhileNode (whileCondition: Condition) (whileBody: "StatementNode list")

datatype FunctionParameterNode =
  FunctionParameterNode (paramIdentifier: string) (paramDescriptor: ArrayDescriptor)

datatype FunctionDefinitionNode =
  FunctionDefinitionNode (fnIdentifier: string) (getParams: "FunctionParameterNode list")
    (getOutput: ArrayDescriptor) (getBody: "StatementNode list")

datatype UseType = PATH | STANDARD_HEADER

datatype UseNode = UseNode (useValue: ArrayNode) (useType: UseType)

datatype RootItem =
    RootBinding VariableBindingNode
  | RootCall FunctionCallNode
  | RootFunction FunctionDefinitionNode
  | RootUse UseNode

text \<open>
  \<^verbatim>\<open>ArrayNode::stringToInts\<close> widens each \<^verbatim>\<open>char\<close> to \<^verbatim>\<open>int\<close>; \<^verbatim>\<open>char\<close> is signed on the targets
  of the build files.
\<close>

definition char_to_int :: "char \<Rightarrow> cint" where
  "char_to_int c = (let k = (of_char c :: nat) in if k < 128 then of_nat k else of_nat k - 256)"

definition stringToInts :: "string \<Rightarrow> cint list" where
  "stringToInts str = map char_to_int str"

section \<open>Parser\<close>

text \<open>
  The parse functions of \<^verbatim>\<open>parser/parse.cpp\<close> take the token vector and the index \<^verbatim>\<open>i\<close> by
  reference.  A parser is a function from the index to the exception thrown or the node
  with the new index.  An unchecked \<^verbatim>\<open>tokens[i]\<close> beyond the vector is undefined.
\<close>

type_synonym 'a P = "nat \<Rightarrow> error + 'a \<times> nat"

definition returnP :: "'a \<Rightarrow> 'a P" where
  "returnP v i = Inr (v, i)"

definition throwP :: "error \<Rightarrow> 'a P" where
  "throwP e i = Inl e"

definition bindP :: "'a P \<Rightarrow> ('a \<Rightarrow> 'b P) \<Rightarrow> 'b P" where
  "bindP m f i = (case m i of Inl e \<Rightarrow> Inl e | Inr (v, i') \<Rightarrow> f v i')"

definition liftP :: "error + 'a \<Rightarrow> 'a P" where
  "liftP r i = (case r of Inl e \<Rightarrow> Inl e | Inr v \<Rightarrow> Inr (v, i))"

definition index :: "nat P" where
  "index i = Inr (i, i)"

definition advance :: "unit P" where
  "advance i = Inr ((), Suc i)"

definition tokenTypeToString :: "TokenType \<Rightarrow> string" where
  "tokenTypeToString type =
     (case type of
        IDENTIFIER \<Rightarrow> ''IDENTIFIER''
      | INT_LIT \<Rightarrow> ''INT_LIT''
      | STRING_LIT \<Rightarrow> ''STRING_LIT''
      | SYMBOL \<Rightarrow> ''SYMBOL'')"

definition expect :: "Token list \<Rightarrow> string \<Rightarrow> TokenType \<Rightarrow> string \<Rightarrow> Token P" where
  "expect tokens source type expectedValue i =
     (if i \<ge> length tokens then
        Inl (UnexpectedEOFError source (if expectedValue = [] then ''token'' else expectedValue))
      else let token = tokens ! i
           in if getType token \<noteq> type then
                Inl (UnexpectedTokenError source (getValue token)
                       (if expectedValue = [] then tokenTypeToString type else expectedValue))
              else if expectedValue \<noteq> [] \<and> getValue token \<noteq> expectedValue then
                Inl (UnexpectedTokenError source (getValue token) expectedValue)
              else Inr (token, i))"

text \<open>\<^verbatim>\<open>expect(...); ++i;\<close>\<close>

definition expect_advance :: "Token list \<Rightarrow> string \<Rightarrow> TokenType \<Rightarrow> string \<Rightarrow> Token P" where
  "expect_advance tokens source type expectedValue =
     bindP (expect tokens source type expectedValue) (\<lambda>token.
     bindP advance (\<lambda>_. returnP token))"

text \<open>\<^verbatim>\<open>getValue()[0]\<close>: on an empty \<^verbatim>\<open>std::string\<close> this is the terminating null character.\<close>

definition first_char :: "string \<Rightarrow> char" where
  "first_char str = (case str of [] \<Rightarrow> CHR 0x00 | c # _ \<Rightarrow> c)"

definition is_symbol :: "Token list \<Rightarrow> nat \<Rightarrow> char \<Rightarrow> bool" where
  "is_symbol tokens i c =
     (getType (tokens ! i) = SYMBOL \<and> first_char (getValue (tokens ! i)) = c)"

text \<open>
  \<^verbatim>\<open>std::stoi\<close> on the lexeme of an IntLit token, which is an optional \<^verbatim>\<open>-\<close> and digits:
  the decimal value, or \<^verbatim>\<open>std::out_of_range\<close> outside \<^verbatim>\<open>int\<close>.  The conversions of the result to
  \<^verbatim>\<open>size_t\<close> wrap around modulo \<open>2 ^ 64\<close>.
\<close>

definition digit_value :: "char \<Rightarrow> nat" where
  "digit_value c = of_char c - 48"

definition decimal :: "string \<Rightarrow> nat" where
  "decimal ds = foldl (\<lambda>acc c. 10 * acc + digit_value c) 0 ds"

definition stoi :: "string \<Rightarrow> error + int" where
  "stoi str =
     (let negative = (str \<noteq> [] \<and> hd str = CHR ''-'');
          ds = (if negative then tl str else str)
      in if ds = [] \<or> \<not> list_all isdigit ds then Inl StoiInvalidArgument
         else let v = int (decimal ds)
              in if negative then (if v > 2 ^ 31 then Inl StoiOutOfRange else Inr (- v))
                 else (if v \<ge> 2 ^ 31 then Inl StoiOutOfRange else Inr v))"

definition size_t_of_int :: "int \<Rightarrow> nat" where
  "size_t_of_int v = nat (v mod 2 ^ 64)"

definition ArrayDescriptor_parse :: "Token list \<Rightarrow> ArrayDescriptor P" where
  "ArrayDescriptor_parse tokens =
     bindP (expect_advance tokens ''Array Descriptor'' SYMBOL ''['') (\<lambda>_.
     bindP index (\<lambda>i.
     bindP (if i < length tokens \<and> getType (tokens ! i) = INT_LIT then
              bindP (liftP (stoi (getValue (tokens ! i)))) (\<lambda>v.
              bindP advance (\<lambda>_. returnP (Some (size_t_of_int v))))
            else returnP None) (\<lambda>size.
     bindP (expect tokens ''Array Descriptor'' SYMBOL []) (\<lambda>token.
       let canGrow = (length (getValue token) > 0 \<and> first_char (getValue token) = CHR ''+'')
       in bindP (if canGrow then advance else returnP ()) (\<lambda>_.
          bindP (expect_advance tokens ''Array Descriptor'' SYMBOL '']'') (\<lambda>_.
            returnP (ArrayDescriptor size canGrow)))))))"

definition FunctionParameterNode_parse :: "Token list \<Rightarrow> FunctionParameterNode P" where
  "FunctionParameterNode_parse tokens =
     bindP (expect_advance tokens ''Function Parameter'' IDENTIFIER []) (\<lambda>identifier.
     bindP (expect_advance tokens ''Function Definition'' SYMBOL '':'') (\<lambda>_.
     bindP (ArrayDescriptor_parse tokens) (\<lambda>descriptor.
       returnP (FunctionParameterNode (getValue identifier) descriptor))))"

subsection \<open>Expressions\<close>

text \<open>
  The functions that parse expressions call each other in a cycle, and their loops end
  only when tokens are consumed.  A call to a function defined further down, and the next
  round of a loop, go through the record \<open>self\<close>; \<open>parser fuel\<close> below ties the knot.
\<close>

datatype ('a, 'b) variant = First 'a | Second 'b

type_synonym output_stack = "(ArithmeticType, ExpressionNode) variant list"

type_synonym operator_stack = "(ArithmeticType option \<times> nat) list"

record parsers =
  callExpressionParse :: "Token list \<Rightarrow> ExpressionNode P"
  callExpressionsLoop :: "Token list \<Rightarrow> char \<Rightarrow> ExpressionNode list \<Rightarrow> ExpressionNode list P"
  callIntsLoop :: "Token list \<Rightarrow> cint list \<Rightarrow> cint list P"
  callPostfixLoop :: "Token list \<Rightarrow> Postfix list \<Rightarrow> Postfix list P"
  callShuntingLoop ::
    "Token list \<Rightarrow> nat \<Rightarrow> output_stack \<Rightarrow> operator_stack \<Rightarrow> (output_stack \<times> operator_stack) P"
  callStatementParse :: "Token list \<Rightarrow> StatementNode P"
  callStatementsLoop :: "Token list \<Rightarrow> StatementNode list \<Rightarrow> StatementNode list P"
  callIfParse :: "Token list \<Rightarrow> IfNode P"
  callParamsLoop ::
    "Token list \<Rightarrow> FunctionParameterNode list \<Rightarrow> FunctionParameterNode list P"
  callRootLoop :: "Token list \<Rightarrow> RootItem list \<Rightarrow> RootItem list P"

text \<open>The loop of \<^verbatim>\<open>parseExpressions\<close>, with the expressions collected so far.\<close>

definition parseExpressions_loop ::
  "parsers \<Rightarrow> Token list \<Rightarrow> char \<Rightarrow> ExpressionNode list \<Rightarrow> ExpressionNode list P" where
  "parseExpressions_loop self tokens end expressions =
     bindP index (\<lambda>i.
       if i < length tokens \<and> \<not> is_symbol tokens i end then
         bindP (callExpressionParse self tokens) (\<lambda>e.
         bindP index (\<lambda>i.
           if i \<ge> length tokens then
             throwP (UnexpectedEOFError ''Expression'' ('', or '' @ [end]))
           else bindP (if is_symbol tokens i CHR '','' then advance else returnP ()) (\<lambda>_.
                  callExpressionsLoop self tokens end (expressions @ [e]))))
       else returnP expressions)"

definition parseExpressions :: "parsers \<Rightarrow> Token list \<Rightarrow> ExpressionNode list P" where
  "parseExpressions self tokens = parseExpressions_loop self tokens CHR '')'' []"

definition FunctionCallNode_parse :: "parsers \<Rightarrow> Token list \<Rightarrow> FunctionCallNode P" where
  "FunctionCallNode_parse self tokens =
     bindP (expect_advance tokens ''Function Call'' IDENTIFIER []) (\<lambda>identifier.
     bindP (expect_advance tokens ''Function Call'' SYMBOL ''('') (\<lambda>_.
     bindP (parseExpressions self tokens) (\<lambda>parameters.
     bindP (expect_advance tokens ''Function Call'' SYMBOL '')'') (\<lambda>_.
     bindP index (\<lambda>i.
       if i \<ge> length tokens then
         throwP (UnexpectedEOFError ''Function Call'' ''; or . after function call'')
       else returnP (FunctionCallNode (getValue identifier) parameters))))))"

definition MethodNode_parse :: "parsers \<Rightarrow> Token list \<Rightarrow> Postfix P" where
  "MethodNode_parse self tokens =
     bindP (expect_advance tokens ''Method'' SYMBOL ''.'') (\<lambda>_.
     bindP (expect_advance tokens ''Method'' IDENTIFIER []) (\<lambda>identifier.
     bindP (expect_advance tokens ''Method'' SYMBOL ''('') (\<lambda>_.
     bindP (parseExpressions self tokens) (\<lambda>parameters.
     bindP (expect_advance tokens ''Method'' SYMBOL '')'') (\<lambda>_.
       returnP (MethodNode (getValue identifier) parameters))))))"

text \<open>
  The loop of \<^verbatim>\<open>ArrayNode::parse\<close> over the literals between the brackets; the test for
  \<^verbatim>\<open>]\<close> after a literal reads \<^verbatim>\<open>tokens[i]\<close> unchecked.
\<close>

definition ArrayNode_ints_loop :: "parsers \<Rightarrow> Token list \<Rightarrow> cint list \<Rightarrow> cint list P" where
  "ArrayNode_ints_loop self tokens ints =
     bindP index (\<lambda>i.
       if i < length tokens \<and> \<not> is_symbol tokens i CHR '']'' then
         bindP (expect_advance tokens ''Array'' INT_LIT []) (\<lambda>token.
         bindP (liftP (stoi (getValue token))) (\<lambda>v.
         bindP index (\<lambda>i.
           if i \<ge> length tokens then throwP UndefinedBehaviour
           else bindP (if \<not> is_symbol tokens i CHR '']'' then
                         bindP (expect_advance tokens ''Array'' SYMBOL '','') (\<lambda>_. returnP ())
                       else returnP ()) (\<lambda>_.
                  callIntsLoop self tokens (ints @ [word_of_int v])))))
       else returnP ints)"

definition ArrayNode_parse :: "parsers \<Rightarrow> Token list \<Rightarrow> ArrayNode P" where
  "ArrayNode_parse self tokens =
     bindP index (\<lambda>i.
       if i \<ge> length tokens then throwP UndefinedBehaviour
       else if getType (tokens ! i) = IDENTIFIER then
         (if i + 1 < length tokens \<and> tokens ! (i + 1) = Token SYMBOL ''('' then
            bindP (FunctionCallNode_parse self tokens) (\<lambda>call. returnP (Call call))
          else bindP advance (\<lambda>_. returnP (Name (getValue (tokens ! i)))))
       else if getType (tokens ! i) = STRING_LIT then
         bindP advance (\<lambda>_. returnP (Ints (stringToInts (getValue (tokens ! i)))))
       else
         bindP (expect_advance tokens ''Array'' SYMBOL ''['') (\<lambda>_.
         bindP (ArrayNode_ints_loop self tokens []) (\<lambda>ints.
         bindP (expect_advance tokens ''Array'' SYMBOL '']'') (\<lambda>_.
           returnP (Ints ints)))))"

text \<open>
  \<^verbatim>\<open>ArrayRangeNode::parse\<close>.  After an expression bound that is directly followed by \<^verbatim>\<open>]\<close>
  the source builds an end expression it never uses and goes on to expect \<^verbatim>\<open>:\<close>.
\<close>

definition bound_token :: "Token list \<Rightarrow> nat \<Rightarrow> bool" where
  "bound_token tokens i = (getType (tokens ! i) = INT_LIT)"

definition ArrayRangeNode_parse :: "parsers \<Rightarrow> Token list \<Rightarrow> Postfix P" where
  "ArrayRangeNode_parse self tokens =
     bindP (expect_advance tokens ''Array Range'' SYMBOL ''['') (\<lambda>_.
     bindP index (\<lambda>i.
       if i + 1 \<ge> length tokens then
         throwP (UnexpectedEOFError ''Array Range'' ''Lower bound or :'')
       else
         bindP (if bound_token tokens i then
                  bindP (liftP (stoi (getValue (tokens ! i)))) (\<lambda>v.
                  bindP advance (\<lambda>_.
                  bindP index (\<lambda>i.
                    let startAsSizeT = size_t_of_int v
                    in if i < length tokens \<and> tokens ! i = Token SYMBOL '']'' then
                         bindP advance (\<lambda>_.
                           returnP (First (ArrayRangeNode (Some (BoundSize startAsSizeT))
                                     (Some (BoundSize ((startAsSizeT + 1) mod 2 ^ 64))))))
                       else returnP (Second (Some (BoundSize startAsSizeT))))))
                else if tokens ! i \<noteq> Token SYMBOL '':'' then
                  bindP (callExpressionParse self tokens) (\<lambda>startAsExpression.
                  bindP index (\<lambda>i.
                  bindP (if i < length tokens \<and> tokens ! i = Token SYMBOL '']''
                         then advance else returnP ()) (\<lambda>_.
                    returnP (Second (Some (BoundExpression startAsExpression))))))
                else returnP (Second None)) (\<lambda>r.
           case r of
             First node \<Rightarrow> returnP node
           | Second start \<Rightarrow>
               bindP (expect_advance tokens ''Array Range'' SYMBOL '':'') (\<lambda>_.
               bindP index (\<lambda>i.
                 if i + 1 \<ge> length tokens then
                   throwP (UnexpectedEOFError ''Array Range'' ''Lower bound or :'')
                 else
                   bindP (if bound_token tokens i then
                            bindP (liftP (stoi (getValue (tokens ! i)))) (\<lambda>v.
                            bindP advance (\<lambda>_.
                              returnP (Some (BoundSize (size_t_of_int v)))))
                          else if tokens ! i \<noteq> Token SYMBOL '']'' then
                            bindP (callExpressionParse self tokens) (\<lambda>e.
                              returnP (Some (BoundExpression e)))
                          else returnP None) (\<lambda>end.
                   bindP (expect_advance tokens ''Array Range'' SYMBOL '']'') (\<lambda>_.
                     returnP (ArrayRangeNode start end))))))))"

definition ArrayPostFixNode_loop :: "parsers \<Rightarrow> Token list \<Rightarrow> Postfix list \<Rightarrow> Postfix list P" where
  "ArrayPostFixNode_loop self tokens result =
     bindP index (\<lambda>i.
       if i < length tokens \<and> (is_symbol tokens i CHR ''['' \<or> is_symbol tokens i CHR ''.'') then
         bindP (if first_char (getValue (tokens ! i)) = CHR ''[''
                then ArrayRangeNode_parse self tokens
                else MethodNode_parse self tokens) (\<lambda>postfix.
           callPostfixLoop self tokens (result @ [postfix]))
       else returnP result)"

definition ArrayPostFixNode_parse :: "parsers \<Rightarrow> Token list \<Rightarrow> Postfix list P" where
  "ArrayPostFixNode_parse self tokens = ArrayPostFixNode_loop self tokens []"

text \<open>
  The operator stack of \<^verbatim>\<open>ExpressionNode::parse\<close> holds pairs of an optional operator (none
  for a left parenthesis) and the precedence (\<^verbatim>\<open>LEFT_PARENTHESIS = 0\<close>, \<^verbatim>\<open>ADD_SUB = 1\<close>,
  \<^verbatim>\<open>MULT_DIV = 2\<close>); stacks are lists with the top first.  Moving an operator to the output
  calls \<^verbatim>\<open>value()\<close> on the optional, which throws for a left parenthesis.
\<close>

fun pop_operators ::
  "(nat \<Rightarrow> bool) \<Rightarrow> output_stack \<Rightarrow> operator_stack \<Rightarrow> error + output_stack \<times> operator_stack" where
  "pop_operators continue output [] = Inr (output, [])"
| "pop_operators continue output ((operator, precedence) # operators) =
     (if continue precedence then
        (case operator of
           None \<Rightarrow> Inl BadOptionalAccess
         | Some type \<Rightarrow> pop_operators continue (First type # output) operators)
      else Inr (output, (operator, precedence) # operators))"

definition operand :: "parsers \<Rightarrow> Token list \<Rightarrow> ExpressionNode P" where
  "operand self tokens =
     bindP (ArrayNode_parse self tokens) (\<lambda>arrayNode.
     bindP (ArrayPostFixNode_parse self tokens) (\<lambda>postFix.
       returnP (ExpressionNode (Array arrayNode) postFix)))"

text \<open>
  One round of the \<^verbatim>\<open>while\<close> loop of \<^verbatim>\<open>ExpressionNode::parse\<close>.  After an operand the source
  decrements \<^verbatim>\<open>i\<close> and the end of the round increments it again.
\<close>

definition shunting_loop ::
  "parsers \<Rightarrow> Token list \<Rightarrow> nat \<Rightarrow> output_stack \<Rightarrow> operator_stack
     \<Rightarrow> (output_stack \<times> operator_stack) P" where
  "shunting_loop self tokens numLeftParentheses output operators =
     bindP index (\<lambda>i.
       if i < length tokens
          \<and> \<not> (numLeftParentheses = 0 \<and> tokens ! i = Token SYMBOL '')'') then
         (let token = tokens ! i; c = first_char (getValue token)
          in case getType token of
               INT_LIT \<Rightarrow> throwP UnexpectedIntLiteral
             | SYMBOL \<Rightarrow>
                 if c = CHR ''['' then
                   bindP (operand self tokens) (\<lambda>e.
                     callShuntingLoop self tokens numLeftParentheses (Second e # output)
                       operators)
                 else if c = CHR '')'' then
                   bindP (liftP (pop_operators (\<lambda>p. p \<noteq> 0) output operators)) (\<lambda>(out, ops).
                     if ops = [] then throwP MoreRightThanLeft
                     else bindP advance (\<lambda>_.
                            callShuntingLoop self tokens (numLeftParentheses - 1) out (tl ops)))
                 else if c \<in> set ''+-*/('' then
                   (let newOperator =
                          (if c = CHR ''+'' then Some TYPE_ADDITION
                           else if c = CHR ''-'' then Some TYPE_SUBTRACTION
                           else if c = CHR ''*'' then Some TYPE_MULTIPLICATION
                           else if c = CHR ''/'' then Some TYPE_DIVISION
                           else None);
                        newPrecedence =
                          (if c = CHR ''+'' \<or> c = CHR ''-'' then 1
                           else if c = CHR ''*'' \<or> c = CHR ''/'' then 2
                           else 0)
                    in bindP (liftP (pop_operators (\<lambda>p. p \<ge> newPrecedence) output operators))
                         (\<lambda>(out, ops).
                       bindP advance (\<lambda>_.
                         callShuntingLoop self tokens
                           (if c = CHR ''('' then numLeftParentheses + 1 else numLeftParentheses)
                           out ((newOperator, newPrecedence) # ops))))
                 else returnP (output, operators)
             | _ \<Rightarrow>
                 bindP (operand self tokens) (\<lambda>e.
                   callShuntingLoop self tokens numLeftParentheses (Second e # output)
                     operators))
       else returnP (output, operators))"

text \<open>
  The rest of \<^verbatim>\<open>ExpressionNode::parse\<close>: the output stack is taken apart from its top into a
  stack of \<^verbatim>\<open>ArithmeticNode\<close>s whose children are filled right first.  \<open>attach\<close> is the inner
  \<^verbatim>\<open>while (result.size() > 1)\<close> that hangs a finished node into the one below it.
\<close>

definition no_postfix :: "ArithmeticNode \<Rightarrow> ExpressionNode" where
  "no_postfix node = ExpressionNode (Arithmetic node) []"

fun attach :: "ArithmeticNode list \<Rightarrow> error + ArithmeticNode list" where
  "attach (current # below # result) =
     (if right below = None then
        Inr (ArithmeticNode (left below) (Some (no_postfix current)) (atype below) # result)
      else if left below = None then
        attach (ArithmeticNode (Some (no_postfix current)) (right below) (atype below) # result)
      else Inl InvalidArrayExpression)"
| "attach result = Inr result"

fun build_tree :: "output_stack \<Rightarrow> ArithmeticNode list \<Rightarrow> error + ArithmeticNode list" where
  "build_tree [] result = Inr result"
| "build_tree (First type # output) result =
     build_tree output (ArithmeticNode None None type # result)"
| "build_tree (Second e # output) [] = Inl UndefinedBehaviour"
| "build_tree (Second e # output) (node # result) =
     (if right node = None then
        build_tree output (ArithmeticNode (left node) (Some e) (atype node) # result)
      else if left node = None then
        (case attach (ArithmeticNode (Some e) (right node) (atype node) # result) of
           Inl err \<Rightarrow> Inl err
         | Inr result' \<Rightarrow> build_tree output result')
      else Inl InvalidArrayExpression)"

definition ExpressionNode_parse :: "parsers \<Rightarrow> Token list \<Rightarrow> ExpressionNode P" where
  "ExpressionNode_parse self tokens =
     bindP (shunting_loop self tokens 0 [] []) (\<lambda>(output, operators).
     bindP (liftP (pop_operators (\<lambda>p. True) output operators)) (\<lambda>(output, _).
       case output of
         [] \<Rightarrow> throwP EmptyExpression
       | Second e # output \<Rightarrow>
           if output \<noteq> [] then throwP InvalidArrayExpression else returnP e
       | First type # output \<Rightarrow>
           bindP (liftP (build_tree output [ArithmeticNode None None type])) (\<lambda>result.
             if length result \<noteq> 1 then throwP InvalidArrayExpression
             else returnP (no_postfix (hd result)))))"

subsection \<open>Statements\<close>

definition VariableDeclarationNode_parse ::
  "parsers \<Rightarrow> Token list \<Rightarrow> VariableDeclarationNode P" where
  "VariableDeclarationNode_parse self tokens =
     bindP (expect_advance tokens ''Variable Declaration'' IDENTIFIER ''let'') (\<lambda>_.
     bindP (expect_advance tokens ''Variable Declaration'' IDENTIFIER []) (\<lambda>identifier.
     bindP (expect_advance tokens ''Variable Declaration'' SYMBOL '':'') (\<lambda>_.
     bindP (ArrayDescriptor_parse tokens) (\<lambda>descriptor.
     bindP index (\<lambda>i.
     bindP (if i < length tokens \<and> is_symbol tokens i CHR ''='' then
              bindP advance (\<lambda>_.
              bindP (ExpressionNode_parse self tokens) (\<lambda>e. returnP (Some e)))
            else returnP None) (\<lambda>val.
       returnP (VariableDeclarationNode (getValue identifier) descriptor val)))))))"

definition VariableAssignmentNode_parse ::
  "parsers \<Rightarrow> Token list \<Rightarrow> VariableAssignmentNode P" where
  "VariableAssignmentNode_parse self tokens =
     bindP (expect_advance tokens ''Variable Assignment'' IDENTIFIER []) (\<lambda>l.
     bindP (expect_advance tokens ''Variable Assignment'' SYMBOL ''='') (\<lambda>_.
     bindP (ExpressionNode_parse self tokens) (\<lambda>r.
       returnP (VariableAssignmentNode (getValue l) r))))"

definition VariableBindingNode_parse :: "parsers \<Rightarrow> Token list \<Rightarrow> VariableBindingNode P" where
  "VariableBindingNode_parse self tokens =
     bindP (expect tokens ''Variable Bind'' IDENTIFIER []) (\<lambda>ident1.
       if getValue ident1 = ''let'' then
         bindP (VariableDeclarationNode_parse self tokens) (\<lambda>d. returnP (Declaration d))
       else
         bindP (VariableAssignmentNode_parse self tokens) (\<lambda>a. returnP (Assignment a)))"

definition IfCompareNode_parse :: "parsers \<Rightarrow> Token list \<Rightarrow> IfCompareNode P" where
  "IfCompareNode_parse self tokens =
     bindP (ExpressionNode_parse self tokens) (\<lambda>l.
     bindP (expect_advance tokens ''If Comparison'' SYMBOL []) (\<lambda>token.
     bindP index (\<lambda>i.
       let symbol1 = first_char (getValue token);
           nextIsEq = (i < length tokens \<and> is_symbol tokens i CHR ''='')
       in bindP (if nextIsEq then advance else returnP ()) (\<lambda>_.
          bindP (if nextIsEq then
                   (if symbol1 = CHR ''<'' then returnP LE
                    else if symbol1 = CHR ''='' then returnP EQ
                    else if symbol1 = CHR ''>'' then returnP GE
                    else if symbol1 = CHR ''!'' then returnP NE
                    else throwP (UnexpectedTokenError ''If Comparison'' [symbol1]
                                   ''Comparison Operator''))
                 else
                   (if symbol1 = CHR ''<'' then returnP LT
                    else if symbol1 = CHR ''>'' then returnP GT
                    else throwP (UnexpectedTokenError ''If Comparison'' [symbol1]
                                   ''Comparison Operator''))) (\<lambda>type.
          bindP (ExpressionNode_parse self tokens) (\<lambda>r.
            returnP (IfCompareNode type l r)))))))"

definition Condition_parse :: "parsers \<Rightarrow> Token list \<Rightarrow> Condition P" where
  "Condition_parse self tokens =
     bindP index (\<lambda>i.
       if getType (tokens ! i) = IDENTIFIER \<and> getValue (tokens ! i) = ''let'' then
         bindP (VariableDeclarationNode_parse self tokens) (\<lambda>d. returnP (IfDeclaration d))
       else
         bindP (IfCompareNode_parse self tokens) (\<lambda>c. returnP (Compare c)))"

definition BodyNode_loop ::
  "parsers \<Rightarrow> Token list \<Rightarrow> StatementNode list \<Rightarrow> StatementNode list P" where
  "BodyNode_loop self tokens statements =
     bindP index (\<lambda>i.
       if i < length tokens \<and> \<not> is_symbol tokens i CHR ''}'' then
         bindP (callStatementParse self tokens) (\<lambda>statement.
           callStatementsLoop self tokens (statements @ [statement]))
       else returnP statements)"

definition BodyNode_parse :: "parsers \<Rightarrow> Token list \<Rightarrow> StatementNode list P" where
  "BodyNode_parse self tokens =
     bindP (expect_advance tokens ''Body'' SYMBOL ''{'') (\<lambda>_.
     bindP (BodyNode_loop self tokens []) (\<lambda>statements.
     bindP (expect_advance tokens ''Body'' SYMBOL ''}'') (\<lambda>_.
       returnP statements)))"

definition ReturnNode_parse :: "parsers \<Rightarrow> Token list \<Rightarrow> ExpressionNode P" where
  "ReturnNode_parse self tokens =
     bindP (expect_advance tokens ''Return'' IDENTIFIER ''return'') (\<lambda>_.
     bindP (ExpressionNode_parse self tokens) (\<lambda>expression.
     bindP (expect_advance tokens ''Return'' SYMBOL '';'') (\<lambda>_.
       returnP expression)))"

definition IfNode_parse :: "parsers \<Rightarrow> Token list \<Rightarrow> IfNode P" where
  "IfNode_parse self tokens =
     bindP (expect_advance tokens ''If'' IDENTIFIER ''if'') (\<lambda>_.
     bindP index (\<lambda>i.
       if i \<ge> length tokens then throwP (UnexpectedEOFError ''If'' ''token'')
       else
         bindP (Condition_parse self tokens) (\<lambda>condition.
         bindP (BodyNode_parse self tokens) (\<lambda>body.
         bindP index (\<lambda>i.
           if i < length tokens \<and> getType (tokens ! i) = IDENTIFIER
              \<and> getValue (tokens ! i) = ''else'' then
             bindP advance (\<lambda>_.
             bindP index (\<lambda>i.
               if i \<ge> length tokens then
                 throwP (UnexpectedEOFError ''If'' ''if or { after else'')
               else if is_symbol tokens i CHR ''{'' then
                 bindP (BodyNode_parse self tokens) (\<lambda>elseBody.
                   returnP (IfNode condition body None (Some elseBody)))
               else
                 bindP (callIfParse self tokens) (\<lambda>elseIfBranches.
                   returnP (IfNode condition body (Some elseIfBranches) None))))
           else returnP (IfNode condition body None None))))))"

definition ForLoopNode_parse :: "parsers \<Rightarrow> Token list \<Rightarrow> ForLoopNode P" where
  "ForLoopNode_parse self tokens =
     bindP (expect_advance tokens ''For Loop'' IDENTIFIER ''for'') (\<lambda>_.
     bindP (expect_advance tokens ''For Loop'' IDENTIFIER []) (\<lambda>elementIdentifier.
     bindP (expect_advance tokens ''For Loop'' SYMBOL '':'') (\<lambda>_.
     bindP (ExpressionNode_parse self tokens) (\<lambda>iterable.
     bindP (BodyNode_parse self tokens) (\<lambda>body.
       returnP (ForLoopNode (getValue elementIdentifier) iterable body))))))"

definition WhileNode_parse :: "parsers \<Rightarrow> Token list \<Rightarrow> WhileNode P" where
  "WhileNode_parse self tokens =
     bindP (expect_advance tokens ''while'' IDENTIFIER ''while'') (\<lambda>_.
     bindP index (\<lambda>i.
       if i \<ge> length tokens then throwP (UnexpectedEOFError ''while'' ''token'')
       else
         bindP (Condition_parse self tokens) (\<lambda>condition.
         bindP (BodyNode_parse self tokens) (\<lambda>body.
           returnP (WhileNode condition body)))))"

definition call_or_binding ::
  "parsers \<Rightarrow> Token list \<Rightarrow> (FunctionCallNode, VariableBindingNode) variant P" where
  "call_or_binding self tokens =
     bindP index (\<lambda>i.
       if i + 1 < length tokens \<and> tokens ! (i + 1) = Token SYMBOL ''('' then
         bindP (FunctionCallNode_parse self tokens) (\<lambda>c. returnP (First c))
       else
         bindP (VariableBindingNode_parse self tokens) (\<lambda>b. returnP (Second b)))"

definition StatementNode_parse :: "parsers \<Rightarrow> Token list \<Rightarrow> StatementNode P" where
  "StatementNode_parse self tokens =
     bindP index (\<lambda>i.
       if i \<ge> length tokens then throwP (UnexpectedEOFError ''Statement'' ''token'')
       else if getType (tokens ! i) = IDENTIFIER then
         (let identifier = getValue (tokens ! i)
          in if identifier = ''if'' then
               bindP (IfNode_parse self tokens) (\<lambda>n. returnP (IfStatement n))
             else if identifier = ''for'' then
               bindP (ForLoopNode_parse self tokens) (\<lambda>n. returnP (ForLoop n))
             else if identifier = ''while'' then
               bindP (WhileNode_parse self tokens) (\<lambda>n. returnP (WhileStatement n))
             else if identifier = ''return'' then
               bindP (ReturnNode_parse self tokens) (\<lambda>n. returnP (ReturnStatement n))
             else
               bindP (call_or_binding self tokens) (\<lambda>r.
               bindP (expect_advance tokens ''Statement'' SYMBOL '';'') (\<lambda>_.
                 returnP (case r of
                            First c \<Rightarrow> CallStatement c
                          | Second b \<Rightarrow> Binding b))))
       else throwP (UnexpectedTokenError ''Statement'' (getValue (tokens ! i)) ''Identifier''))"

subsection \<open>Top level\<close>

definition params_loop ::
  "parsers \<Rightarrow> Token list \<Rightarrow> FunctionParameterNode list \<Rightarrow> FunctionParameterNode list P" where
  "params_loop self tokens params =
     bindP index (\<lambda>i.
       if i < length tokens \<and> tokens ! i \<noteq> Token SYMBOL '')'' then
         bindP (FunctionParameterNode_parse tokens) (\<lambda>param.
         bindP index (\<lambda>i.
         bindP (if i < length tokens \<and> tokens ! i = Token SYMBOL '',''
                then advance else returnP ()) (\<lambda>_.
           callParamsLoop self tokens (params @ [param]))))
       else returnP params)"

definition FunctionDefinitionNode_parse ::
  "parsers \<Rightarrow> Token list \<Rightarrow> FunctionDefinitionNode P" where
  "FunctionDefinitionNode_parse self tokens =
     bindP (expect_advance tokens ''Function Definition'' IDENTIFIER ''fn'') (\<lambda>_.
     bindP (expect_advance tokens ''Function Definition'' IDENTIFIER []) (\<lambda>identifier.
     bindP (expect_advance tokens ''Function Definition'' SYMBOL ''('') (\<lambda>_.
     bindP (params_loop self tokens []) (\<lambda>params.
     bindP (expect_advance tokens ''Function Definition'' SYMBOL '')'') (\<lambda>_.
     bindP (expect_advance tokens ''Function Definition'' SYMBOL ''-'') (\<lambda>_.
     bindP (expect_advance tokens ''Function Definition'' SYMBOL ''>'') (\<lambda>_.
     bindP (ArrayDescriptor_parse tokens) (\<lambda>output.
     bindP (BodyNode_parse self tokens) (\<lambda>body.
       returnP (FunctionDefinitionNode (getValue identifier) params output body))))))))))"

definition UseNode_parse :: "parsers \<Rightarrow> Token list \<Rightarrow> UseNode P" where
  "UseNode_parse self tokens =
     bindP (expect_advance tokens ''use'' IDENTIFIER ''use'') (\<lambda>_.
     bindP index (\<lambda>i.
       if i \<ge> length tokens then
         throwP (UnexpectedEOFError ''use'' ''\"array literal\" or <standard_header>'')
       else if tokens ! i = Token SYMBOL ''<'' then
         bindP advance (\<lambda>_.
         bindP (expect_advance tokens ''use'' IDENTIFIER []) (\<lambda>standardHeader.
         bindP (expect_advance tokens ''use'' SYMBOL ''>'') (\<lambda>_.
           returnP (UseNode (Ints (stringToInts (getValue standardHeader))) STANDARD_HEADER))))
       else
         bindP (ArrayNode_parse self tokens) (\<lambda>array. returnP (UseNode array PATH))))"

definition RootNode_loop :: "parsers \<Rightarrow> Token list \<Rightarrow> RootItem list \<Rightarrow> RootItem list P" where
  "RootNode_loop self tokens vals =
     bindP index (\<lambda>i.
       if i < length tokens then
         (if getType (tokens ! i) = IDENTIFIER then
            (if getValue (tokens ! i) = ''fn'' then
               bindP (FunctionDefinitionNode_parse self tokens) (\<lambda>f.
                 callRootLoop self tokens (vals @ [RootFunction f]))
             else if getValue (tokens ! i) = ''use'' then
               bindP (UseNode_parse self tokens) (\<lambda>u.
                 callRootLoop self tokens (vals @ [RootUse u]))
             else
               bindP (call_or_binding self tokens) (\<lambda>r.
               bindP (expect_advance tokens ''TODO'' SYMBOL '';'') (\<lambda>_.
                 callRootLoop self tokens
                   (vals @ [case r of First c \<Rightarrow> RootCall c | Second b \<Rightarrow> RootBinding b]))))
          else throwP (UnexpectedValue (getValue (tokens ! i))))
       else returnP vals)"

primrec parser :: "nat \<Rightarrow> parsers" where
  "parser 0 =
     \<lparr>callExpressionParse = (\<lambda>_. throwP OutOfFuel),
      callExpressionsLoop = (\<lambda>_ _ _. throwP OutOfFuel),
      callIntsLoop = (\<lambda>_ _. throwP OutOfFuel),
      callPostfixLoop = (\<lambda>_ _. throwP OutOfFuel),
      callShuntingLoop = (\<lambda>_ _ _ _. throwP OutOfFuel),
      callStatementParse = (\<lambda>_. throwP OutOfFuel),
      callStatementsLoop = (\<lambda>_ _. throwP OutOfFuel),
      callIfParse = (\<lambda>_. throwP OutOfFuel),
      callParamsLoop = (\<lambda>_ _. throwP OutOfFuel),
      callRootLoop = (\<lambda>_ _. throwP OutOfFuel)\<rparr>"
| "parser (Suc fuel) =
     (let self = parser fuel
      in \<lparr>callExpressionParse = ExpressionNode_parse self,
          callExpressionsLoop = parseExpressions_loop self,
          callIntsLoop = ArrayNode_ints_loop self,
          callPostfixLoop = ArrayPostFixNode_loop self,
          callShuntingLoop = shunting_loop self,
          callStatementParse = StatementNode_parse self,
          callStatementsLoop = BodyNode_loop self,
          callIfParse = IfNode_parse self,
          callParamsLoop = params_loop self,
          callRootLoop = RootNode_loop self\<rparr>)"

definition RootNode_parse :: "nat \<Rightarrow> Token list \<Rightarrow> error + RootItem list" where
  "RootNode_parse fuel tokens =
     (case RootNode_loop (parser fuel) tokens [] 0 of
        Inl e \<Rightarrow> Inl e
      | Inr (vals, i) \<Rightarrow> Inr vals)"

section \<open>Scopes\<close>

text \<open>
  A \<^verbatim>\<open>Scope\<close> owns the map \<^verbatim>\<open>variables\<close> and a weak pointer to its parent.  Every scope
  the interpreter creates is a child of the scope it is working in and is dropped when the
  construct that made it returns, so the scopes alive at any moment form one chain: the
  list of their maps, innermost first.  The empty list is an expired or null pointer.
  A binding is the \<^verbatim>\<open>std::variant<std::shared_ptr<Value>,
  std::shared_ptr<FunctionDefinitionNode>>\<close>; no \<^verbatim>\<open>Value\<close> is shared between two bindings or
  changed in place, so the pointer is the value.
\<close>

datatype binding = BValue Value | BFunction FunctionDefinitionNode

type_synonym Scope = "string \<rightharpoonup> binding"

definition Scope_has :: "Scope \<Rightarrow> string \<Rightarrow> bool" where
  "Scope_has variables name = (variables name \<noteq> None)"

fun Scope_hasRecursive :: "Scope list \<Rightarrow> string \<Rightarrow> bool" where
  "Scope_hasRecursive [] name = False"
| "Scope_hasRecursive (variables # parent) name =
     (if Scope_has variables name then True else Scope_hasRecursive parent name)"

fun Scope_get :: "Scope list \<Rightarrow> string \<Rightarrow> error + binding" where
  "Scope_get [] name = Inl (UndefinedVariable name)"
| "Scope_get (variables # parent) name =
     (case variables name of Some b \<Rightarrow> Inr b | None \<Rightarrow> Scope_get parent name)"

fun Scope_set :: "Scope list \<Rightarrow> string \<Rightarrow> binding \<Rightarrow> error + Scope list" where
  "Scope_set [] name val = Inl (UndefinedVariableForAssignment name)"
| "Scope_set (variables # parent) name val =
     (if Scope_has variables name then Inr (variables(name \<mapsto> val) # parent)
      else (case Scope_set parent name val of
              Inl e \<Rightarrow> Inl e
            | Inr parent' \<Rightarrow> Inr (variables # parent')))"

text \<open>\<^verbatim>\<open>Scope::define\<close> is \<^verbatim>\<open>variables.emplace(name, value)\<close>: it keeps an existing entry.\<close>

definition Scope_define :: "Scope \<Rightarrow> string \<Rightarrow> binding \<Rightarrow> Scope" where
  "Scope_define variables name val =
     (if Scope_has variables name then variables else variables(name \<mapsto> val))"

section \<open>Interpreter state\<close>

text \<open>
  What the interpreter can change or observe: the scope chain of the scope it is working
  in, what it has written to \<^verbatim>\<open>std::cout\<close>, the exceptions it has reported on \<^verbatim>\<open>std::cerr\<close>, the
  keys still to come from the terminal, the files \<^verbatim>\<open>readCode\<close> can open, the paths it has
  opened so far, how often the terminal was cleared, and the vector \<^verbatim>\<open>interpretedFiles\<close> that
  \<^verbatim>\<open>interpret\<close> hands to the module loader by reference.
  A computation returns its result or the exception it threw, with the state reached.
\<close>

record state =
  scopes :: "Scope list"
  cout :: string
  cerr :: "error list"
  cin :: string
  files :: "string \<rightharpoonup> string"
  opened :: "string list"
  clears :: nat
  interpretedFiles :: "string list"

type_synonym 'a M = "state \<Rightarrow> (error + 'a) \<times> state"

definition returnM :: "'a \<Rightarrow> 'a M" where
  "returnM v s = (Inr v, s)"

definition throwM :: "error \<Rightarrow> 'a M" where
  "throwM e s = (Inl e, s)"

definition bindM :: "'a M \<Rightarrow> ('a \<Rightarrow> 'b M) \<Rightarrow> 'b M" where
  "bindM m f s = (case m s of (Inl e, s') \<Rightarrow> (Inl e, s') | (Inr v, s') \<Rightarrow> f v s')"

definition liftM :: "error + 'a \<Rightarrow> 'a M" where
  "liftM r s = (r, s)"

text \<open>\<^verbatim>\<open>scope.lock()\<close>, with the name used in the message thrown when it fails.\<close>

definition lockScope :: "string \<Rightarrow> Scope list M" where
  "lockScope what s =
     (case scopes s of [] \<Rightarrow> (Inl (ErrorInterpreting what), s) | _ \<Rightarrow> (Inr (scopes s), s))"

definition putScope :: "Scope list \<Rightarrow> unit M" where
  "putScope chain s = (Inr (), s\<lparr>scopes := chain\<rparr>)"

text \<open>\<^verbatim>\<open>std::make_shared<Scope>(parent)\<close> and the end of the new scope's lifetime.\<close>

definition pushScope :: "unit M" where
  "pushScope s = (Inr (), s\<lparr>scopes := Map.empty # scopes s\<rparr>)"

definition popScope :: "unit M" where
  "popScope s = (Inr (), s\<lparr>scopes := tl (scopes s)\<rparr>)"

definition defineM :: "string \<Rightarrow> binding \<Rightarrow> unit M" where
  "defineM name val s =
     (case scopes s of
        [] \<Rightarrow> (Inl UndefinedBehaviour, s)
      | variables # parent \<Rightarrow>
          (Inr (), s\<lparr>scopes := Scope_define variables name val # parent\<rparr>))"

definition interpretFunctionDefinition :: "FunctionDefinitionNode \<Rightarrow> unit M" where
  "interpretFunctionDefinition functionDefinition =
     bindM (lockScope ''function definition'') (\<lambda>_.
       defineM (fnIdentifier functionDefinition) (BFunction functionDefinition))"

section \<open>Built-in methods\<close>

definition applyAppend :: "Value \<Rightarrow> Value list \<Rightarrow> error + Value" where
  "applyAppend val parameters =
     (if length parameters \<noteq> 1 then Inl AppendExpectsOne
      else let param1 = parameters ! 0; size1 = getSize val; size2 = getSize param1
           in Inr (Value (Dynamic (fromValue val @ fromValue param1)) (size1 + size2)))"

text \<open>
  \<^verbatim>\<open>result[i] = sqrt(fixedValue[i])\<close> goes through \<^verbatim>\<open>double\<close>: for a non-negative \<^verbatim>\<open>int\<close> the
  conversion back truncates to the integer square root; for a negative one it converts a
  NaN, which is undefined.
\<close>

primrec isqrt :: "nat \<Rightarrow> nat" where
  "isqrt 0 = 0"
| "isqrt (Suc n) = (let r = isqrt n in if (r + 1) * (r + 1) \<le> Suc n then r + 1 else r)"

fun sqrt_loop :: "cint list \<Rightarrow> error + cint list" where
  "sqrt_loop [] = Inr []"
| "sqrt_loop (x # xs) =
     (if x <s 0 then Inl UndefinedBehaviour
      else (case sqrt_loop xs of
              Inl e \<Rightarrow> Inl e
            | Inr rs \<Rightarrow> Inr (of_nat (isqrt (unat x)) # rs)))"

definition applySqrt :: "Value \<Rightarrow> Value list \<Rightarrow> error + Value" where
  "applySqrt val parameters =
     (if length parameters \<noteq> 0 then Inl SqrtExpectsZero
      else (case sqrt_loop (fromValue val) of
              Inl e \<Rightarrow> Inl e
            | Inr result \<Rightarrow> Inr (Value (Dynamic result) (length result))))"

text \<open>\<^verbatim>\<open>result[0] = value.getSize()\<close> converts the \<^verbatim>\<open>size_t\<close> to \<^verbatim>\<open>int\<close>.\<close>

definition applySize :: "Value \<Rightarrow> Value list \<Rightarrow> error + Value" where
  "applySize val parameters =
     (if length parameters \<noteq> 0 then Inl SizeExpectsZero
      else Inr (Value (Dynamic [of_nat (getSize val)]) 1))"

text \<open>\<^verbatim>\<open>valueToString\<close> casts each \<^verbatim>\<open>int\<close> to \<^verbatim>\<open>char\<close>: its low byte.\<close>

definition valueToString :: "Value \<Rightarrow> string" where
  "valueToString val = map (\<lambda>x. char_of (unat x)) (fromValue val)"

definition readCode :: "string \<Rightarrow> string M" where
  "readCode path s =
     (case files s path of
        None \<Rightarrow> (Inl (FailedToOpenFile path), s)
      | Some code \<Rightarrow> (Inr code, s\<lparr>opened := opened s @ [path]\<rparr>))"

text \<open>
  \<^verbatim>\<open>getCharImmediate\<close>: one key from the terminal; at the end of the input \<^verbatim>\<open>getchar\<close>
  returns \<^verbatim>\<open>EOF\<close>, whose low byte is 255; Ctrl+C raises \<^verbatim>\<open>SIGINT\<close>.
\<close>

definition getCharImmediate :: "char M" where
  "getCharImmediate s =
     (case cin s of
        [] \<Rightarrow> (Inr (CHR 0xFF), s)
      | ch # rest \<Rightarrow>
          (if ch = CHR 0x03 then (Inl Interrupted, s\<lparr>cin := rest\<rparr>)
           else (Inr ch, s\<lparr>cin := rest\<rparr>)))"

definition clearTerminal :: "unit M" where
  "clearTerminal s = (Inr (), s\<lparr>clears := Suc (clears s)\<rparr>)"

definition print_cout :: "string \<Rightarrow> unit M" where
  "print_cout str s = (Inr (), s\<lparr>cout := cout s @ str\<rparr>)"

text \<open>
  The loop of \<^verbatim>\<open>interpretFunctionCall\<close> that defines each parameter in the callee's scope
  as \<^verbatim>\<open>Value::fromDescriptor(param->getDescriptor(), *argument)\<close>.
\<close>

fun define_parameters :: "FunctionParameterNode list \<Rightarrow> Value list \<Rightarrow> unit M" where
  "define_parameters (param # params) (argument # arguments) =
     bindM (liftM (fromDescriptor (paramDescriptor param) (Some argument))) (\<lambda>v.
     bindM (defineM (paramIdentifier param) (BValue v)) (\<lambda>_.
       define_parameters params arguments))"
| "define_parameters _ _ = returnM ()"

text \<open>
  The comparison of \<^verbatim>\<open>interpretIfDeclaration\<close>:
  \<^verbatim>\<open>descriptor.getSize() == value.getSize() || (descriptor.getSize() < value.getSize() &&
  descriptor.getCanGrow())\<close>, between a \<^verbatim>\<open>std::optional<size_t>\<close> and a \<^verbatim>\<open>size_t\<close>: an empty
  optional equals no value and is less than every value.
\<close>

definition descriptor_accepts :: "ArrayDescriptor \<Rightarrow> nat \<Rightarrow> bool" where
  "descriptor_accepts descriptor n =
     (getDescSize descriptor = Some n
      \<or> ((case getDescSize descriptor of None \<Rightarrow> True | Some k \<Rightarrow> k < n)
         \<and> getCanGrow descriptor))"

section \<open>Interpreter\<close>

text \<open>
  The \<^verbatim>\<open>interpret...\<close> functions of \<^verbatim>\<open>runtime/interpreter.cpp\<close>, in an order in which most
  calls go to a function already defined.  The five calls that go backwards
  (\<^verbatim>\<open>interpretExpression\<close>, \<^verbatim>\<open>interpretFunctionCall\<close>, \<^verbatim>\<open>interpretBody\<close>, the next round of the
  \<^verbatim>\<open>while\<close> loop and the \<^verbatim>\<open>else if\<close> branch of \<^verbatim>\<open>interpretIf\<close>) go through the record \<open>self\<close>.
  User-defined functions and \<^verbatim>\<open>while\<close> loops need not return, so \<open>interp fuel\<close> ties the knot
  with a bound on the depth of such calls, and throws \<open>OutOfFuel\<close> beyond it.
  The scope argument of the source is the chain in the state.
\<close>

record calls =
  callExpression :: "ExpressionNode \<Rightarrow> Value M"
  callFunctionCall :: "FunctionCallNode \<Rightarrow> Value M"
  callBody :: "StatementNode list \<Rightarrow> Value option M"
  callWhile :: "WhileNode \<Rightarrow> Value option M"
  callIf :: "IfNode \<Rightarrow> (Value option \<times> bool) M"

fun interpretParameters :: "calls \<Rightarrow> ExpressionNode list \<Rightarrow> Value list M" where
  "interpretParameters self [] = returnM []"
| "interpretParameters self (parameter # parameters) =
     bindM (callExpression self parameter) (\<lambda>v.
     bindM (interpretParameters self parameters) (\<lambda>result.
       returnM (v # result)))"

text \<open>
  Reading a name bound to a function dereferences the null pointer that \<^verbatim>\<open>std::get_if\<close>
  returns for the other alternative.
\<close>

definition interpretArray :: "calls \<Rightarrow> ArrayNode \<Rightarrow> Value M" where
  "interpretArray self array =
     bindM (lockScope ''array'') (\<lambda>lockedScope.
       case array of
         Ints arg \<Rightarrow> returnM (Value (Vector arg) (length arg))
       | Name arg \<Rightarrow>
           bindM (liftM (Scope_get lockedScope arg)) (\<lambda>b.
             case b of
               BValue val \<Rightarrow> returnM val
             | BFunction f \<Rightarrow> throwM UndefinedBehaviour)
       | Call arg \<Rightarrow> callFunctionCall self arg)"

definition interpretArithmetic :: "calls \<Rightarrow> ArithmeticNode \<Rightarrow> Value M" where
  "interpretArithmetic self arithmetic =
     bindM (case left arithmetic of
              None \<Rightarrow> throwM UndefinedBehaviour
            | Some e \<Rightarrow> callExpression self e) (\<lambda>l.
     bindM (case right arithmetic of
              None \<Rightarrow> throwM UndefinedBehaviour
            | Some e \<Rightarrow> callExpression self e) (\<lambda>r.
       case atype arithmetic of
         TYPE_ADDITION \<Rightarrow> liftM (Value_add l r)
       | TYPE_SUBTRACTION \<Rightarrow> liftM (Value_sub l r)
       | TYPE_MULTIPLICATION \<Rightarrow> liftM (Value_mul l r)
       | TYPE_DIVISION \<Rightarrow> liftM (Value_div l r)
       | TYPE_LEFT_PARENTHESIS \<Rightarrow> throwM (ErrorInterpreting ''arithmetic'')))"

definition applyMethod :: "calls \<Rightarrow> Value \<Rightarrow> string \<Rightarrow> ExpressionNode list \<Rightarrow> Value M" where
  "applyMethod self val identifier methodParams =
     bindM (interpretParameters self methodParams) (\<lambda>parameters.
       if identifier = ''append'' then liftM (applyAppend val parameters)
       else if identifier = ''sqrt'' then liftM (applySqrt val parameters)
       else if identifier = ''size'' then liftM (applySize val parameters)
       else throwM (UnknownMethod identifier))"

definition interpretArrayRangeBound :: "calls \<Rightarrow> Bound \<Rightarrow> nat M" where
  "interpretArrayRangeBound self bound =
     (case bound of
        BoundSize k \<Rightarrow> returnM k
      | BoundExpression e \<Rightarrow>
          bindM (callExpression self e) (\<lambda>v.
            let result = fromValue v
            in if length result \<noteq> 1 \<or> result ! 0 <s 0 then throwM BadArrayBound
               else returnM (unat (result ! 0))))"

definition interpretArrayRange ::
  "calls \<Rightarrow> Bound option \<Rightarrow> Bound option \<Rightarrow> Value \<Rightarrow> Value M" where
  "interpretArrayRange self rangeStart rangeEnd val =
     (let size = getSize val;
          startV = (case rangeStart of None \<Rightarrow> BoundSize 0 | Some b \<Rightarrow> b);
          endV = (case rangeEnd of None \<Rightarrow> BoundSize size | Some b \<Rightarrow> b)
      in bindM (interpretArrayRangeBound self startV) (\<lambda>start.
         bindM (interpretArrayRangeBound self endV) (\<lambda>end.
           if end < start then throwM RangeUpperBelowLower
           else let newSize = end - start
                in if end > size then throwM RangeBoundsTooLarge
                   else returnM (Value (Dynamic (map (\<lambda>i. fromValue val ! (i + start))
                                                  [0..<newSize])) newSize))))"

fun applyPostfix :: "calls \<Rightarrow> Value \<Rightarrow> Postfix list \<Rightarrow> Value M" where
  "applyPostfix self val [] = returnM val"
| "applyPostfix self val (postfix # postfixes) =
     bindM (case postfix of
              ArrayRangeNode rangeStart rangeEnd \<Rightarrow>
                interpretArrayRange self rangeStart rangeEnd val
            | MethodNode identifier parameters \<Rightarrow>
                applyMethod self val identifier parameters) (\<lambda>resultValue.
       applyPostfix self resultValue postfixes)"

definition interpretExpression :: "calls \<Rightarrow> ExpressionNode \<Rightarrow> Value M" where
  "interpretExpression self expression =
     bindM (case getPrimary expression of
              Arithmetic arg \<Rightarrow> interpretArithmetic self arg
            | Array arg \<Rightarrow> interpretArray self arg)
       (\<lambda>val. applyPostfix self val (getPostfix expression))"

definition interpretVariableDeclaration :: "calls \<Rightarrow> VariableDeclarationNode \<Rightarrow> unit M" where
  "interpretVariableDeclaration self variableDeclaration =
     bindM (lockScope ''variable declaration'') (\<lambda>_.
     bindM (case declValue variableDeclaration of
              None \<Rightarrow> returnM None
            | Some e \<Rightarrow> bindM (interpretExpression self e) (\<lambda>v. returnM (Some v))) (\<lambda>val.
     bindM (liftM (fromDescriptor (declDescriptor variableDeclaration) val)) (\<lambda>v.
       defineM (declIdentifier variableDeclaration) (BValue v))))"

text \<open>
  \<^verbatim>\<open>lockedScope->set(variableAssignment->getLeft(), right)\<close> stores the pointer to the new
  \<^verbatim>\<open>Value\<close> in the nearest scope that has the name; \<^verbatim>\<open>Value::operator=\<close> is not involved.
\<close>

definition interpretVariableAssignment :: "calls \<Rightarrow> VariableAssignmentNode \<Rightarrow> unit M" where
  "interpretVariableAssignment self variableAssignment =
     bindM (lockScope ''variable assignment'') (\<lambda>lockedScope.
       if \<not> Scope_hasRecursive lockedScope (getLeft variableAssignment)
       then throwM (NotDefined (getLeft variableAssignment))
       else bindM (interpretExpression self (getRight variableAssignment)) (\<lambda>r.
            bindM (lockScope ''variable assignment'') (\<lambda>chain.
            bindM (liftM (Scope_set chain (getLeft variableAssignment) (BValue r)))
              putScope)))"

definition interpretVariableBinding :: "calls \<Rightarrow> VariableBindingNode \<Rightarrow> unit M" where
  "interpretVariableBinding self variableBinding =
     (case variableBinding of
        Declaration arg \<Rightarrow> interpretVariableDeclaration self arg
      | Assignment arg \<Rightarrow> interpretVariableAssignment self arg)"

definition interpretIfDeclaration :: "calls \<Rightarrow> VariableDeclarationNode \<Rightarrow> bool M" where
  "interpretIfDeclaration self declaration =
     (case declValue declaration of
        None \<Rightarrow>
          bindM (interpretVariableDeclaration self declaration) (\<lambda>_. returnM True)
      | Some expression \<Rightarrow>
          bindM (lockScope ''if declaration'') (\<lambda>_.
          bindM (interpretExpression self expression) (\<lambda>val.
            let descriptor = declDescriptor declaration
            in if descriptor_accepts descriptor (getSize val) then
                 bindM (liftM (fromDescriptor descriptor (Some val))) (\<lambda>v.
                 bindM (defineM (declIdentifier declaration) (BValue v)) (\<lambda>_.
                   returnM True))
               else returnM False)))"

definition interpretIfCompare :: "calls \<Rightarrow> IfCompareNode \<Rightarrow> bool M" where
  "interpretIfCompare self condition =
     bindM (interpretExpression self (cmpLeft condition)) (\<lambda>l.
     bindM (interpretExpression self (cmpRight condition)) (\<lambda>r.
       returnM (case cmpType condition of
                  EQ \<Rightarrow> Value_eq l r
                | NE \<Rightarrow> Value_ne l r
                | LT \<Rightarrow> Value_lt l r
                | LE \<Rightarrow> Value_le l r
                | GT \<Rightarrow> Value_gt l r
                | GE \<Rightarrow> Value_ge l r)))"

definition interpretIfCondition :: "calls \<Rightarrow> Condition \<Rightarrow> bool M" where
  "interpretIfCondition self variantCondition =
     (case variantCondition of
        Compare condition \<Rightarrow> interpretIfCompare self condition
      | IfDeclaration condition \<Rightarrow> interpretIfDeclaration self condition)"

text \<open>
  \<^verbatim>\<open>interpretWhile\<close> makes one scope and runs the loop in it; \<open>while_loop\<close> is one round of
  \<^verbatim>\<open>while (interpretIfCondition(..., scope)) { ... }\<close> followed by the rounds that remain.
\<close>

definition while_loop :: "calls \<Rightarrow> WhileNode \<Rightarrow> Value option M" where
  "while_loop self whileNode =
     bindM (interpretIfCondition self (whileCondition whileNode)) (\<lambda>c.
       if c then
         bindM (callBody self (whileBody whileNode)) (\<lambda>result.
           case result of
             Some v \<Rightarrow> returnM (Some v)
           | None \<Rightarrow> callWhile self whileNode)
       else returnM None)"

definition interpretWhile :: "calls \<Rightarrow> WhileNode \<Rightarrow> Value option M" where
  "interpretWhile self whileNode =
     bindM pushScope (\<lambda>_.
     bindM (while_loop self whileNode) (\<lambda>result.
     bindM popScope (\<lambda>_.
       returnM result)))"

fun for_loop :: "calls \<Rightarrow> ForLoopNode \<Rightarrow> cint list \<Rightarrow> Value option M" where
  "for_loop self forLoop [] = returnM None"
| "for_loop self forLoop (element # elements) =
     bindM pushScope (\<lambda>_.
     bindM (defineM (getElement forLoop) (BValue (Value (Dynamic [element]) 1))) (\<lambda>_.
     bindM (callBody self (forBody forLoop)) (\<lambda>returnValue.
     bindM popScope (\<lambda>_.
       case returnValue of
         Some v \<Rightarrow> returnM (Some v)
       | None \<Rightarrow> for_loop self forLoop elements))))"

definition interpretForLoop :: "calls \<Rightarrow> ForLoopNode \<Rightarrow> Value option M" where
  "interpretForLoop self forLoop =
     bindM (interpretExpression self (getIterable forLoop)) (\<lambda>iterable.
       for_loop self forLoop (fromValue iterable))"

definition interpretIf :: "calls \<Rightarrow> IfNode \<Rightarrow> (Value option \<times> bool) M" where
  "interpretIf self ifNode =
     bindM pushScope (\<lambda>_.
     bindM (interpretIfCondition self (ifCondition ifNode)) (\<lambda>isConditionTrue.
     bindM (if isConditionTrue then
              bindM (callBody self (ifBody ifNode)) (\<lambda>r. returnM (r, True))
            else
              bindM (case getElseIfBranches ifNode of
                       None \<Rightarrow> returnM (None, False)
                     | Some elseIf \<Rightarrow> callIf self elseIf) (\<lambda>elseIfResult.
                if snd elseIfResult then returnM (fst elseIfResult, True)
                else (case getElseBody ifNode of
                        Some elseBody \<Rightarrow>
                          bindM (callBody self elseBody) (\<lambda>r. returnM (r, True))
                      | None \<Rightarrow> returnM (None, False)))) (\<lambda>result.
     bindM popScope (\<lambda>_.
       returnM result))))"

definition interpretReturn :: "calls \<Rightarrow> ExpressionNode \<Rightarrow> Value M" where
  "interpretReturn self returnNode = interpretExpression self returnNode"

definition interpretPrint :: "calls \<Rightarrow> FunctionCallNode \<Rightarrow> Value M" where
  "interpretPrint self functionCall =
     (if length (getParameters functionCall) \<noteq> 1 then throwM (BuiltinArity ''print'')
      else bindM (interpretExpression self (getParameters functionCall ! 0)) (\<lambda>param1.
           bindM (print_cout (valueToString param1)) (\<lambda>_.
             returnM (Value (Dynamic []) 0))))"

definition interpretRead :: "calls \<Rightarrow> FunctionCallNode \<Rightarrow> Value M" where
  "interpretRead self functionCall =
     (if length (getParameters functionCall) \<noteq> 1 then throwM (BuiltinArity ''read'')
      else bindM (interpretExpression self (getParameters functionCall ! 0)) (\<lambda>param1.
           bindM (readCode (valueToString param1)) (\<lambda>code.
             interpretArray self (Ints (stringToInts code)))))"

definition interpretGetchar :: "calls \<Rightarrow> FunctionCallNode \<Rightarrow> Value M" where
  "interpretGetchar self functionCall =
     (if length (getParameters functionCall) \<noteq> 0 then throwM (BuiltinArity ''getchar'')
      else bindM getCharImmediate (\<lambda>ch.
             interpretArray self (Ints (stringToInts [ch]))))"

definition interpretClear :: "FunctionCallNode \<Rightarrow> Value M" where
  "interpretClear functionCall =
     (if length (getParameters functionCall) \<noteq> 0 then throwM (BuiltinArity ''clear'')
      else bindM clearTerminal (\<lambda>_. returnM (Value (Dynamic []) 0)))"

definition interpretRange :: "calls \<Rightarrow> FunctionCallNode \<Rightarrow> Value M" where
  "interpretRange self functionCall =
     (if length (getParameters functionCall) \<noteq> 1 then throwM (BuiltinArity ''range'')
      else bindM (interpretExpression self (getParameters functionCall ! 0)) (\<lambda>v.
             let param1 = fromValue v
             in if length param1 \<noteq> 1 then throwM (RangeArgumentSize (length param1))
                else let len = param1 ! 0
                     in if len <s 0 then throwM RangeArgumentNegative
                        else returnM (Value (Dynamic (map of_nat [0..<unat len]))
                                        (unat len))))"

definition interpretExit :: "calls \<Rightarrow> FunctionCallNode \<Rightarrow> Value M" where
  "interpretExit self functionCall =
     (if length (getParameters functionCall) \<noteq> 1 then throwM (BuiltinArity ''exit'')
      else bindM (interpretExpression self (getParameters functionCall ! 0)) (\<lambda>v.
             case fromValue v of
               [] \<Rightarrow> throwM UndefinedBehaviour
             | status # _ \<Rightarrow> throwM (Exited status)))"

text \<open>
  The callee's scope is \<^verbatim>\<open>std::make_shared<Scope>(parent)\<close>, where \<^verbatim>\<open>parent\<close> is the scope the
  call is interpreted in.  A name bound to a \<^verbatim>\<open>Value\<close> dereferences the null pointer of
  \<^verbatim>\<open>std::get_if\<close>.
\<close>

definition interpretFunctionCall :: "calls \<Rightarrow> FunctionCallNode \<Rightarrow> Value M" where
  "interpretFunctionCall self functionCall =
     bindM (lockScope ''function call'') (\<lambda>lockedParent.
       if Scope_hasRecursive lockedParent (getIdentifier functionCall) then
         bindM (liftM (Scope_get lockedParent (getIdentifier functionCall))) (\<lambda>b.
           case b of
             BValue v \<Rightarrow> throwM UndefinedBehaviour
           | BFunction functionDefinition \<Rightarrow>
               bindM (interpretParameters self (getParameters functionCall)) (\<lambda>arguments.
               bindM pushScope (\<lambda>_.
                 let params = getParams functionDefinition
                 in if length params \<noteq> length arguments
                    then throwM (ArityMismatch (fnIdentifier functionDefinition)
                                   (length params) (length arguments))
                    else bindM (define_parameters params arguments) (\<lambda>_.
                         bindM (callBody self (getBody functionDefinition)) (\<lambda>returnValue.
                         bindM popScope (\<lambda>_.
                           returnM (case returnValue of
                                      Some v \<Rightarrow> v
                                    | None \<Rightarrow> Value (Dynamic []) 0)))))))
       else if getIdentifier functionCall = ''print'' then interpretPrint self functionCall
       else if getIdentifier functionCall = ''read'' then interpretRead self functionCall
       else if getIdentifier functionCall = ''getchar'' then
         interpretGetchar self functionCall
       else if getIdentifier functionCall = ''clear'' then interpretClear functionCall
       else if getIdentifier functionCall = ''range'' then interpretRange self functionCall
       else if getIdentifier functionCall = ''exit'' then interpretExit self functionCall
       else throwM (UndefinedFunction (getIdentifier functionCall)))"

definition interpretStatement :: "calls \<Rightarrow> StatementNode \<Rightarrow> Value option M" where
  "interpretStatement self statement =
     (case statement of
        Binding arg \<Rightarrow> bindM (interpretVariableBinding self arg) (\<lambda>_. returnM None)
      | ForLoop arg \<Rightarrow> interpretForLoop self arg
      | WhileStatement arg \<Rightarrow> interpretWhile self arg
      | IfStatement arg \<Rightarrow> bindM (interpretIf self arg) (\<lambda>r. returnM (fst r))
      | CallStatement arg \<Rightarrow> bindM (interpretFunctionCall self arg) (\<lambda>_. returnM None)
      | ReturnStatement arg \<Rightarrow> bindM (interpretReturn self arg) (\<lambda>v. returnM (Some v)))"

fun interpretBody :: "calls \<Rightarrow> StatementNode list \<Rightarrow> Value option M" where
  "interpretBody self [] = returnM None"
| "interpretBody self (statement # statements) =
     bindM (interpretStatement self statement) (\<lambda>returnValue.
       case returnValue of
         Some v \<Rightarrow> returnM (Some v)
       | None \<Rightarrow> interpretBody self statements)"

primrec interp :: "nat \<Rightarrow> calls" where
  "interp 0 =
     \<lparr>callExpression = (\<lambda>_. throwM OutOfFuel),
      callFunctionCall = (\<lambda>_. throwM OutOfFuel),
      callBody = (\<lambda>_. throwM OutOfFuel),
      callWhile = (\<lambda>_. throwM OutOfFuel),
      callIf = (\<lambda>_. throwM OutOfFuel)\<rparr>"
| "interp (Suc fuel) =
     (let self = interp fuel
      in \<lparr>callExpression = interpretExpression self,
          callFunctionCall = interpretFunctionCall self,
          callBody = interpretBody self,
          callWhile = while_loop self,
          callIf = interpretIf self\<rparr>)"

section \<open>Module loader and entry point\<close>

text \<open>
  \<^verbatim>\<open>interpretUse\<close> and \<^verbatim>\<open>interpretFile\<close> call each other; \<open>callFile\<close> is \<^verbatim>\<open>interpretFile\<close> for the
  files reached through a \<^verbatim>\<open>use\<close>.  A file that uses a file that uses a file, and so on, is
  followed as far as the fuel goes.
\<close>

definition interpretUse :: "(string \<Rightarrow> unit M) \<Rightarrow> calls \<Rightarrow> UseNode \<Rightarrow> unit M" where
  "interpretUse callFile self use =
     bindM (interpretArray self (useValue use)) (\<lambda>v.
       let filename = valueToString v
       in (\<lambda>s. if filename \<notin> set (interpretedFiles s) then
                 callFile filename (s\<lparr>interpretedFiles := interpretedFiles s @ [filename]\<rparr>)
               else (Inr (), s)))"

text \<open>The loop of \<^verbatim>\<open>interpretFile\<close> over the items of the parsed file.\<close>

fun interpretItems :: "(string \<Rightarrow> unit M) \<Rightarrow> calls \<Rightarrow> RootItem list \<Rightarrow> unit M" where
  "interpretItems callFile self [] = returnM ()"
| "interpretItems callFile self (item # items) =
     bindM (case item of
              RootFunction arg \<Rightarrow> interpretFunctionDefinition arg
            | RootUse arg \<Rightarrow> interpretUse callFile self arg
            | _ \<Rightarrow> returnM ()) (\<lambda>_.
       interpretItems callFile self items)"

primrec interpretFile :: "nat \<Rightarrow> string \<Rightarrow> unit M" where
  "interpretFile 0 filename = throwM OutOfFuel"
| "interpretFile (Suc fuel) filename =
     bindM (readCode filename) (\<lambda>code.
     bindM (liftM (tokenize code)) (\<lambda>tokens.
     bindM (liftM (RootNode_parse (Suc fuel) tokens)) (\<lambda>root.
       interpretItems (interpretFile fuel) (interp (Suc fuel)) root)))"

text \<open>
  How the process ends: \<^verbatim>\<open>interpret\<close> returns, \<^verbatim>\<open>exit\<close> is called with a status, or the
  process is terminated: by an exception nobody catches, by \<^verbatim>\<open>SIGINT\<close>, or in an undefined
  way.  \<^verbatim>\<open>interpret\<close> (here \<open>interpret_run\<close>) catches only around the call of \<^verbatim>\<open>main\<close>; there it reports the exception
  on \<^verbatim>\<open>std::cerr\<close> and exits with status 1.
\<close>

datatype outcome = Returned | ExitStatus cint | Terminated error

definition uncaught :: "error \<Rightarrow> outcome" where
  "uncaught e = (case e of Exited status \<Rightarrow> ExitStatus status | _ \<Rightarrow> Terminated e)"

definition caught :: "error \<Rightarrow> state \<Rightarrow> outcome \<times> state" where
  "caught e s =
     (if e = OutOfFuel \<or> e = UndefinedBehaviour \<or> e = Interrupted then (Terminated e, s)
      else case e of
             Exited status \<Rightarrow> (ExitStatus status, s)
           | _ \<Rightarrow> (ExitStatus 1, s\<lparr>cerr := cerr s @ [e]\<rparr>))"

definition commandLineArgs :: "string list \<Rightarrow> cint list" where
  "commandLineArgs args = concat (map (\<lambda>arg. of_nat (length arg) # map char_to_int arg) args)"

definition interpret_run :: "nat \<Rightarrow> string \<Rightarrow> cint \<Rightarrow> string list \<Rightarrow> state \<Rightarrow> outcome \<times> state" where
  "interpret_run fuel filename argc args s0 =
     (case interpretFile fuel filename (s0\<lparr>scopes := [Map.empty], interpretedFiles := []\<rparr>) of
        (Inl e, s) \<Rightarrow> (uncaught e, s)
      | (Inr _, s) \<Rightarrow>
          (case scopes s of
             [] \<Rightarrow> (Terminated UndefinedBehaviour, s)
           | scope # _ \<Rightarrow>
               if Scope_has scope ''main'' then
                 (let mainArgs = [ExpressionNode (Array (Ints [argc])) [],
                                  ExpressionNode (Array (Ints (commandLineArgs args))) []]
                  in case interpretFunctionCall (interp fuel)
                            (FunctionCallNode ''main'' mainArgs) s of
                       (Inl e, s') \<Rightarrow> caught e s'
                     | (Inr _, s') \<Rightarrow> (Returned, s'))
               else (Returned, s)))"

text \<open>
  \<^verbatim>\<open>main\<close> of \<^verbatim>\<open>main.cpp\<close>, on \<^verbatim>\<open>argv\<close> with the program's name first.  After \<^verbatim>\<open>interpret\<close>
  it waits while \<^verbatim>\<open>isGuiRunning()\<close>, a function of the graphical front end that is not among
  these sources and is taken to return false, and returns 0.
\<close>

definition main :: "nat \<Rightarrow> string list \<Rightarrow> state \<Rightarrow> outcome \<times> state" where
  "main fuel argv s =
     (if length argv < 2 then (ExitStatus 1, s\<lparr>cerr := cerr s @ [Usage]\<rparr>)
      else case interpret_run fuel (argv ! 1) (of_nat (length argv) - 2) (drop 2 argv) s of
             (Returned, s') \<Rightarrow> (ExitStatus 0, s')
           | r \<Rightarrow> r)"

section \<open>Invariants of the scope chain\<close>

text \<open>
  \<open>grows s s'\<close>: the chain of \<open>s'\<close> has as many scopes as that of \<open>s\<close>, each scope has kept
  all its names, and the list of loaded files is the same.  \<open>keeps m\<close>: the computation
  \<open>m\<close>, when it returns, has only let the state grow in this sense.
\<close>

definition grows :: "state \<Rightarrow> state \<Rightarrow> bool" where
  "grows s s' \<longleftrightarrow>
     list_all2 (\<lambda>a b. dom a \<subseteq> dom b) (scopes s) (scopes s')
     \<and> interpretedFiles s' = interpretedFiles s"

definition keeps :: "'a M \<Rightarrow> bool" where
  "keeps m \<longleftrightarrow> (\<forall>s r s'. m s = (Inr r, s') \<longrightarrow> grows s s')"

definition calls_keep :: "calls \<Rightarrow> bool" where
  "calls_keep self \<longleftrightarrow>
     (\<forall>e. keeps (callExpression self e)) \<and> (\<forall>c. keeps (callFunctionCall self c))
     \<and> (\<forall>b. keeps (callBody self b)) \<and> (\<forall>w. keeps (callWhile self w))
     \<and> (\<forall>i. keeps (callIf self i))"


section \<open>Programs and states of the examples\<close>

text \<open>The state in which a process starts, with the files it can open.\<close>

definition initial :: "(string \<rightharpoonup> string) \<Rightarrow> state" where
  "initial fs = \<lparr>scopes = [], cout = [], cerr = [], cin = [], files = fs, opened = [],
     clears = 0, interpretedFiles = []\<rparr>"

text \<open>
  The program of the first scenario of the specification as it is written there, and the
  same program with the two parameters that \<^verbatim>\<open>interpret\<close> passes to \<^verbatim>\<open>main\<close>, named by letters.
\<close>

definition underscore_program :: string where
  \<open>underscore_program = ''fn main(_: [+]) -> [+] { print("Hi"); }''\<close>

definition hi_program :: string where
  \<open>hi_program = ''fn main(a: [+], b: [+]) -> [+] { print("Hi"); }''\<close>

definition hi_tokens :: "Token list" where
  "hi_tokens =
     [Token IDENTIFIER ''fn'', Token IDENTIFIER ''main'',
      Token SYMBOL ''('', Token IDENTIFIER ''a'', Token SYMBOL '':'',
      Token SYMBOL ''['', Token SYMBOL ''+'', Token SYMBOL '']'',
      Token SYMBOL '','', Token IDENTIFIER ''b'', Token SYMBOL '':'',
      Token SYMBOL ''['', Token SYMBOL ''+'', Token SYMBOL '']'',
      Token SYMBOL '')'', Token SYMBOL ''-'', Token SYMBOL ''>'',
      Token SYMBOL ''['', Token SYMBOL ''+'', Token SYMBOL '']'',
      Token SYMBOL ''{'', Token IDENTIFIER ''print'', Token SYMBOL ''('',
      Token STRING_LIT ''Hi'', Token SYMBOL '')'', Token SYMBOL '';'',
      Token SYMBOL ''}'']"

definition hi_items :: "RootItem list" where
  "hi_items =
     [RootFunction
       (FunctionDefinitionNode ''main''
         [FunctionParameterNode ''a'' (ArrayDescriptor None True),
          FunctionParameterNode ''b'' (ArrayDescriptor None True)]
         (ArrayDescriptor None True)
         [CallStatement
           (FunctionCallNode ''print''
             [ExpressionNode (Array (Ints [72, 105])) []])])]"

text \<open>
  A loop that runs twice and prints the variable it declares in its body, which is
  initialized from the loop counter.
\<close>

definition while_program :: string where
  \<open>while_program = ''fn main(c: [+], v: [+]) -> [+] { let i: [+] = "a"; while i != "c" { let x: [+] = i; i = i + [1]; print(x); } }''\<close>

definition while_tokens :: "Token list" where
  "while_tokens =
     [Token IDENTIFIER ''fn'', Token IDENTIFIER ''main'',
           Token SYMBOL ''('', Token IDENTIFIER ''c'', Token SYMBOL '':'',
           Token SYMBOL ''['', Token SYMBOL ''+'', Token SYMBOL '']'',
           Token SYMBOL '','', Token IDENTIFIER ''v'', Token SYMBOL '':'',
           Token SYMBOL ''['', Token SYMBOL ''+'', Token SYMBOL '']'',
           Token SYMBOL '')'', Token SYMBOL ''-'', Token SYMBOL ''>'',
           Token SYMBOL ''['', Token SYMBOL ''+'', Token SYMBOL '']'',
           Token SYMBOL ''{'', Token IDENTIFIER ''let'', Token IDENTIFIER ''i'',
           Token SYMBOL '':'', Token SYMBOL ''['', Token SYMBOL ''+'',
           Token SYMBOL '']'', Token SYMBOL ''='', Token STRING_LIT ''a'',
           Token SYMBOL '';'', Token IDENTIFIER ''while'',
           Token IDENTIFIER ''i'', Token SYMBOL ''!'', Token SYMBOL ''='',
           Token STRING_LIT ''c'', Token SYMBOL ''{'', Token IDENTIFIER ''let'',
           Token IDENTIFIER ''x'', Token SYMBOL '':'', Token SYMBOL ''['',
           Token SYMBOL ''+'', Token SYMBOL '']'', Token SYMBOL ''='',
           Token IDENTIFIER ''i'', Token SYMBOL '';'', Token IDENTIFIER ''i'',
           Token SYMBOL ''='', Token IDENTIFIER ''i'', Token SYMBOL ''+'',
           Token SYMBOL ''['', Token INT_LIT ''1'', Token SYMBOL '']'',
           Token SYMBOL '';'', Token IDENTIFIER ''print'', Token SYMBOL ''('',
           Token IDENTIFIER ''x'', Token SYMBOL '')'', Token SYMBOL '';'',
           Token SYMBOL ''}'', Token SYMBOL ''}'']"

definition while_items :: "RootItem list" where
  "while_items =
     [RootFunction
            (FunctionDefinitionNode ''main''
              [FunctionParameterNode ''c'' (ArrayDescriptor None True),
               FunctionParameterNode ''v'' (ArrayDescriptor None True)]
              (ArrayDescriptor None True)
              [Binding
                (Declaration
                  (VariableDeclarationNode ''i'' (ArrayDescriptor None True)
                    (Some (ExpressionNode (Array (Ints [97])) [])))),
               WhileStatement
                (WhileNode
                  (Compare
                    (IfCompareNode NE (ExpressionNode (Array (Name ''i'')) [])
                      (ExpressionNode (Array (Ints [99])) [])))
                  [Binding
                    (Declaration
                      (VariableDeclarationNode ''x'' (ArrayDescriptor None True)
                        (Some (ExpressionNode (Array (Name ''i'')) [])))),
                   Binding
                    (Assignment
                      (VariableAssignmentNode ''i''
                        (ExpressionNode
                          (Arithmetic
                            (ArithmeticNode
                              (Some (ExpressionNode (Array (Name ''i'')) []))
                              (Some
                                (ExpressionNode (Array (Ints [1])) []))
                              TYPE_ADDITION))
                          []))),
                   CallStatement
                    (FunctionCallNode ''print''
                      [ExpressionNode (Array (Name ''x'')) []])])])]"



text \<open>
  \<^verbatim>\<open>fn f() -> [+] { return x; }\<close> defined in the root scope, and a caller's scope that has
  \<^verbatim>\<open>x\<close>.
\<close>

definition returns_x :: FunctionDefinitionNode where
  "returns_x = FunctionDefinitionNode ''f'' [] (ArrayDescriptor None True)
     [ReturnStatement (ExpressionNode (Array (Name ''x'')) [])]"

definition caller_state :: state where
  "caller_state = (initial Map.empty)
     \<lparr>scopes := [Map.empty(''x'' \<mapsto> BValue (Value (Vector [7]) 1)),
                 Map.empty(''f'' \<mapsto> BFunction returns_x)]\<rparr>"


text \<open>A state with one scope, and one in which \<^verbatim>\<open>lib.ints\<close> has been loaded.\<close>

definition one_scope :: state where
  "one_scope = (initial Map.empty)\<lparr>scopes := [Map.empty]\<rparr>"


text \<open>
  The program of the first scenario with the parameter named by a letter: \<^verbatim>\<open>main\<close> has one
  parameter.
\<close>

definition one_parameter_program :: string where
  \<open>one_parameter_program = ''fn main(a: [+]) -> [+] { print("Hi"); }''\<close>

definition one_parameter_tokens :: "Token list" where
  "one_parameter_tokens =
     [Token IDENTIFIER ''fn'', Token IDENTIFIER ''main'',
      Token SYMBOL ''('', Token IDENTIFIER ''a'', Token SYMBOL '':'',
      Token SYMBOL ''['', Token SYMBOL ''+'', Token SYMBOL '']'',
      Token SYMBOL '')'', Token SYMBOL ''-'', Token SYMBOL ''>'',
      Token SYMBOL ''['', Token SYMBOL ''+'', Token SYMBOL '']'',
      Token SYMBOL ''{'', Token IDENTIFIER ''print'', Token SYMBOL ''('',
      Token STRING_LIT ''Hi'', Token SYMBOL '')'', Token SYMBOL '';'',
      Token SYMBOL ''}'']"

definition one_parameter_items :: "RootItem list" where
  "one_parameter_items =
     [RootFunction
       (FunctionDefinitionNode ''main''
         [FunctionParameterNode ''a'' (ArrayDescriptor None True)]
         (ArrayDescriptor None True)
         [CallStatement
           (FunctionCallNode ''print''
             [ExpressionNode (Array (Ints [72, 105])) []])])]"

text \<open>
  A variable declared with the descriptor \<^verbatim>\<open>[3+]\<close> and three elements, then assigned one
  element.
\<close>

definition shrink_program :: string where
  \<open>shrink_program = ''fn main(a: [+], b: [+]) -> [+] { let g: [3+] = [1,2,3]; g = [1]; print(g.size()); }''\<close>

definition shrink_tokens :: "Token list" where
  "shrink_tokens =
     [Token IDENTIFIER ''fn'', Token IDENTIFIER ''main'',
      Token SYMBOL ''('', Token IDENTIFIER ''a'', Token SYMBOL '':'',
      Token SYMBOL ''['', Token SYMBOL ''+'', Token SYMBOL '']'',
      Token SYMBOL '','', Token IDENTIFIER ''b'', Token SYMBOL '':'',
      Token SYMBOL ''['', Token SYMBOL ''+'', Token SYMBOL '']'',
      Token SYMBOL '')'', Token SYMBOL ''-'', Token SYMBOL ''>'',
      Token SYMBOL ''['', Token SYMBOL ''+'', Token SYMBOL '']'',
      Token SYMBOL ''{'', Token IDENTIFIER ''let'', Token IDENTIFIER ''g'',
      Token SYMBOL '':'', Token SYMBOL ''['', Token INT_LIT ''3'',
      Token SYMBOL ''+'', Token SYMBOL '']'', Token SYMBOL ''='',
      Token SYMBOL ''['', Token INT_LIT ''1'', Token SYMBOL '','',
      Token INT_LIT ''2'', Token SYMBOL '','', Token INT_LIT ''3'',
      Token SYMBOL '']'', Token SYMBOL '';'', Token IDENTIFIER ''g'',
      Token SYMBOL ''='', Token SYMBOL ''['', Token INT_LIT ''1'',
      Token SYMBOL '']'', Token SYMBOL '';'', Token IDENTIFIER ''print'',
      Token SYMBOL ''('', Token IDENTIFIER ''g'', Token SYMBOL ''.'',
      Token IDENTIFIER ''size'', Token SYMBOL ''('', Token SYMBOL '')'',
      Token SYMBOL '')'', Token SYMBOL '';'', Token SYMBOL ''}'']"

definition shrink_items :: "RootItem list" where
  "shrink_items =
     [RootFunction
       (FunctionDefinitionNode ''main''
         [FunctionParameterNode ''a'' (ArrayDescriptor None True),
          FunctionParameterNode ''b'' (ArrayDescriptor None True)]
         (ArrayDescriptor None True)
         [Binding
           (Declaration
             (VariableDeclarationNode ''g'' (ArrayDescriptor (Some 3) True)
               (Some (ExpressionNode (Array (Ints [1, 2, 3])) [])))),
          Binding
           (Assignment
             (VariableAssignmentNode ''g'' (ExpressionNode (Array (Ints [1])) []))),
          CallStatement
           (FunctionCallNode ''print''
             [ExpressionNode (Array (Name ''g'')) [MethodNode ''size'' []]])])]"

text \<open>The state in which \<^verbatim>\<open>g\<close> is bound to the growable value \<^verbatim>\<open>[1,2,3]\<close> with minimum 3.\<close>

definition g_bound :: state where
  "g_bound = (initial Map.empty)
     \<lparr>scopes := [Map.empty(''g'' \<mapsto> BValue (Value (Vector [1, 2, 3]) 3))]\<rparr>"

text \<open>The file system with the one file \<^verbatim>\<open>p.ints\<close>, and the command line \<^verbatim>\<open>ints p.ints\<close>.\<close>

definition one_file :: "string \<Rightarrow> state" where
  "one_file code = initial (Map.empty(''p.ints'' \<mapsto> code))"

definition command_line :: "string list" where
  "command_line = [''ints'', ''p.ints'']"

section \<open>Evaluation rules\<close>

text \<open>
  A call through \<open>interp (Suc fuel)\<close> or \<open>parser (Suc fuel)\<close> is the function itself with
  one unit of fuel less.
\<close>

lemma interp_calls:
  "callExpression (interp (Suc fuel)) = interpretExpression (interp fuel)"
  "callFunctionCall (interp (Suc fuel)) = interpretFunctionCall (interp fuel)"
  "callBody (interp (Suc fuel)) = interpretBody (interp fuel)"
  "callWhile (interp (Suc fuel)) = while_loop (interp fuel)"
  "callIf (interp (Suc fuel)) = interpretIf (interp fuel)"
  "callExpression (interp 0) = (\<lambda>_. throwM OutOfFuel)"
  "callFunctionCall (interp 0) = (\<lambda>_. throwM OutOfFuel)"
  "callBody (interp 0) = (\<lambda>_. throwM OutOfFuel)"
  "callWhile (interp 0) = (\<lambda>_. throwM OutOfFuel)"
  "callIf (interp 0) = (\<lambda>_. throwM OutOfFuel)"
  by (simp_all add: Let_def)

lemma parser_calls:
  "callExpressionParse (parser (Suc fuel)) = ExpressionNode_parse (parser fuel)"
  "callExpressionsLoop (parser (Suc fuel)) = parseExpressions_loop (parser fuel)"
  "callIntsLoop (parser (Suc fuel)) = ArrayNode_ints_loop (parser fuel)"
  "callPostfixLoop (parser (Suc fuel)) = ArrayPostFixNode_loop (parser fuel)"
  "callShuntingLoop (parser (Suc fuel)) = shunting_loop (parser fuel)"
  "callStatementParse (parser (Suc fuel)) = StatementNode_parse (parser fuel)"
  "callStatementsLoop (parser (Suc fuel)) = BodyNode_loop (parser fuel)"
  "callIfParse (parser (Suc fuel)) = IfNode_parse (parser fuel)"
  "callParamsLoop (parser (Suc fuel)) = params_loop (parser fuel)"
  "callRootLoop (parser (Suc fuel)) = RootNode_loop (parser fuel)"
  by (simp_all add: Let_def)

lemmas monadP_defs = returnP_def throwP_def bindP_def liftP_def index_def advance_def
  expect_def expect_advance_def first_char_def is_symbol_def tokenTypeToString_def

lemmas parser_defs = ArrayDescriptor_parse_def FunctionParameterNode_parse_def
  parseExpressions_loop_def parseExpressions_def FunctionCallNode_parse_def
  MethodNode_parse_def ArrayNode_ints_loop_def ArrayNode_parse_def bound_token_def
  ArrayRangeNode_parse_def ArrayPostFixNode_loop_def ArrayPostFixNode_parse_def
  operand_def shunting_loop_def no_postfix_def ExpressionNode_parse_def
  VariableDeclarationNode_parse_def VariableAssignmentNode_parse_def
  VariableBindingNode_parse_def IfCompareNode_parse_def Condition_parse_def
  BodyNode_loop_def BodyNode_parse_def ReturnNode_parse_def IfNode_parse_def
  ForLoopNode_parse_def WhileNode_parse_def call_or_binding_def StatementNode_parse_def
  params_loop_def FunctionDefinitionNode_parse_def UseNode_parse_def RootNode_loop_def
  RootNode_parse_def stoi_def size_t_of_int_def decimal_def digit_value_def
  stringToInts_def char_to_int_def

lemmas lexer_defs = isalpha_def isdigit_def isalnum_def isspace_def symbols_def
  emplace_back_def

lemmas monadM_defs = returnM_def throwM_def bindM_def liftM_def lockScope_def putScope_def
  pushScope_def popScope_def defineM_def Scope_has_def Scope_define_def

lemmas value_defs = getSize_def sameSize_def DynamicArray_eq_def DynamicArray_ne_def
  DynamicArray_lt_def DynamicArray_le_def DynamicArray_gt_def DynamicArray_ge_def
  Value_eq_def Value_ne_def Value_lt_def Value_le_def Value_gt_def Value_ge_def
  Value_add_def Value_sub_def Value_mul_def Value_div_def cdiv_def

lemmas interp_defs = applyAppend_def applySqrt_def applySize_def valueToString_def
  readCode_def getCharImmediate_def clearTerminal_def print_cout_def
  descriptor_accepts_def interpretFunctionDefinition_def interpretArray_def
  interpretArithmetic_def applyMethod_def interpretArrayRangeBound_def
  interpretArrayRange_def interpretExpression_def interpretVariableDeclaration_def
  interpretVariableAssignment_def interpretVariableBinding_def interpretIfDeclaration_def
  interpretIfCompare_def interpretIfCondition_def while_loop_def interpretWhile_def
  interpretForLoop_def interpretIf_def interpretReturn_def interpretPrint_def
  interpretRead_def interpretGetchar_def interpretClear_def interpretRange_def
  interpretExit_def interpretFunctionCall_def interpretStatement_def

lemmas loader_defs = interpretUse_def uncaught_def caught_def commandLineArgs_def
  interpret_run_def main_def initial_def

lemma chars_of_codes:
  "char_of (72 :: nat) = CHR ''H''" "char_of (105 :: nat) = CHR ''i''"
  "char_of (97 :: nat) = CHR ''a''"
  by code_simp+

section \<open>Properties of the value model\<close>

lemma all_pairs_eq_list_all2:
  "length a = length b \<Longrightarrow> all_pairs bad a b = list_all2 (\<lambda>x y. \<not> bad x y) a b"
  by (induction bad a b rule: all_pairs.induct) auto

lemma Value_ne_list_all2:
  "Value_ne a b = list_all2 (\<lambda>x y. x \<noteq> y) (fromValue a) (fromValue b)"
  by (auto simp: Value_ne_def sameSize_def DynamicArray_ne_def all_pairs_eq_list_all2
           dest: list_all2_lengthD)

text \<open>
  Claim C5.  For any two array values, \<^verbatim>\<open>!=\<close> is false when their lengths differ, and
  for equal lengths it is true exactly when every pair of corresponding elements differs.
\<close>

theorem Value_ne_every_pair_differs:
  "Value_ne a b \<longleftrightarrow>
     getSize a = getSize b \<and> (\<forall>i < getSize a. fromValue a ! i \<noteq> fromValue b ! i)"
  by (simp add: Value_ne_list_all2 list_all2_conv_all_nth getSize_def)

theorem Value_ne_every_pair_differs_witness:
  "\<not> Value_ne (Value (Vector [1, 2]) 2) (Value (Dynamic [1, 3]) 2)
   \<and> Value_ne (Value (Vector [1, 2]) 2) (Value (Dynamic [3, 4]) 2)
   \<and> \<not> Value_ne (Value (Vector [1, 2]) 2) (Value (Vector [3, 4, 5]) 3)"
  using Value_ne_every_pair_differs [of "Value (Vector [1, 2]) 2" "Value (Dynamic [1, 3]) 2"]
        Value_ne_every_pair_differs [of "Value (Vector [1, 2]) 2" "Value (Dynamic [3, 4]) 2"]
        Value_ne_every_pair_differs [of "Value (Vector [1, 2]) 2" "Value (Vector [3, 4, 5]) 3"]
  by (simp add: getSize_def less_Suc_eq numeral_2_eq_2)

text \<open>
  Claim C2.  What \<^verbatim>\<open>Value::fromDescriptor\<close> returns for a growable descriptor with a size:
  \<^verbatim>\<open>[2+]\<close> without an initializer gives an empty vector with minimum 0, not two zeros with
  minimum 2, and \<^verbatim>\<open>[5+]\<close> accepts the two-element initializer \<^verbatim>\<open>[1,2]\<close> and gives it the
  minimum 0.
\<close>

theorem fromDescriptor_growable_minimum:
  "fromDescriptor (ArrayDescriptor (Some 2) True) None = Inr (Value (Vector []) 0)
   \<and> fromDescriptor (ArrayDescriptor (Some 5) True) (Some (Value (Vector [1, 2]) 2))
       = Inr (Value (Vector [1, 2]) 0)"
  by simp

section \<open>Properties of the lexer\<close>

lemma tokenize_run:
  "list_all isalnum xs \<Longrightarrow> \<not> isalnum y \<Longrightarrow>
   takeWhile isalnum (xs @ y # ys) = xs \<and> dropWhile isalnum (xs @ y # ys) = y # ys"
  by (induction xs) auto

lemma digit_run:
  "list_all isdigit xs \<Longrightarrow> \<not> isdigit y \<Longrightarrow>
   takeWhile isdigit (xs @ y # ys) = xs \<and> dropWhile isdigit (xs @ y # ys) = y # ys"
  by (induction xs) auto

lemma minus_not_alnum: "\<not> isalnum CHR ''-''" "\<not> isalpha CHR ''-''" "\<not> isdigit CHR ''-''"
  by (simp_all add: isalnum_def isalpha_def isdigit_def)

lemma digit_not_alpha: "isdigit c \<Longrightarrow> \<not> isalpha c"
  by (auto simp: isalpha_def isdigit_def Let_def)

lemma tokenize_minus_digit:
  "isdigit d \<Longrightarrow>
   tokenize (CHR ''-'' # d # code) =
     emplace_back (Token INT_LIT (CHR ''-'' # d # takeWhile isdigit code))
       (tokenize (dropWhile isdigit code))"
  by (simp add: minus_not_alnum)

lemma tokenize_minus_symbol:
  "code = [] \<or> \<not> isdigit (hd code) \<Longrightarrow>
   tokenize (CHR ''-'' # code) = emplace_back (Token SYMBOL ''-'') (tokenize code)"
  by (auto simp: minus_not_alnum symbols_def)

text \<open>
  Claim C9, as the code has it.  \<^verbatim>\<open>tokenize\<close> never looks at the byte before a \<^verbatim>\<open>-\<close>: a
  \<^verbatim>\<open>-\<close> immediately followed by a digit begins an IntLit token also right after an
  identifier and right after a number.
\<close>

theorem tokenize_minus_after_identifier:
  assumes "isdigit d"
  shows "(isalpha c \<and> list_all isalnum xs \<longrightarrow>
           tokenize (c # xs @ CHR ''-'' # d # code) =
             emplace_back (Token IDENTIFIER (c # xs))
               (emplace_back (Token INT_LIT (CHR ''-'' # d # takeWhile isdigit code))
                  (tokenize (dropWhile isdigit code))))
       \<and> (isdigit c \<and> list_all isdigit xs \<longrightarrow>
           tokenize (c # xs @ CHR ''-'' # d # code) =
             emplace_back (Token INT_LIT (c # xs))
               (emplace_back (Token INT_LIT (CHR ''-'' # d # takeWhile isdigit code))
                  (tokenize (dropWhile isdigit code))))"
proof (intro conjI impI)
  assume a: "isalpha c \<and> list_all isalnum xs"
  then have "isalnum c" by (simp add: isalpha_isalnum)
  with a have run: "takeWhile isalnum (c # xs @ CHR ''-'' # d # code) = c # xs"
    "dropWhile isalnum (c # xs @ CHR ''-'' # d # code) = CHR ''-'' # d # code"
    using tokenize_run [of xs "CHR ''-''" "d # code"] by (simp_all add: minus_not_alnum)
  have "tokenize (c # xs @ CHR ''-'' # d # code) =
          emplace_back (Token IDENTIFIER (takeWhile isalnum (c # xs @ CHR ''-'' # d # code)))
            (tokenize (dropWhile isalnum (c # xs @ CHR ''-'' # d # code)))"
    using a by (subst tokenize.simps) simp
  then show "tokenize (c # xs @ CHR ''-'' # d # code) =
             emplace_back (Token IDENTIFIER (c # xs))
               (emplace_back (Token INT_LIT (CHR ''-'' # d # takeWhile isdigit code))
                  (tokenize (dropWhile isdigit code)))"
    by (simp only: run tokenize_minus_digit [OF assms])
next
  assume a: "isdigit c \<and> list_all isdigit xs"
  then have run: "takeWhile isdigit (xs @ CHR ''-'' # d # code) = xs"
    "dropWhile isdigit (xs @ CHR ''-'' # d # code) = CHR ''-'' # d # code"
    using digit_run [of xs "CHR ''-''" "d # code"] by (simp_all add: minus_not_alnum)
  have "tokenize (c # xs @ CHR ''-'' # d # code) =
          emplace_back (Token INT_LIT (c # takeWhile isdigit (xs @ CHR ''-'' # d # code)))
            (tokenize (dropWhile isdigit (xs @ CHR ''-'' # d # code)))"
    using a by (subst tokenize.simps) (simp add: digit_not_alpha)
  then show "tokenize (c # xs @ CHR ''-'' # d # code) =
             emplace_back (Token INT_LIT (c # xs))
               (emplace_back (Token INT_LIT (CHR ''-'' # d # takeWhile isdigit code))
                  (tokenize (dropWhile isdigit code)))"
    by (simp only: run tokenize_minus_digit [OF assms])
qed

theorem tokenize_minus_after_identifier_witness:
  "tokenize ''ab-12;'' =
     Inr [Token IDENTIFIER ''ab'', Token INT_LIT ''-12'', Token SYMBOL '';'']
   \<and> tokenize ''7-3'' = Inr [Token INT_LIT ''7'', Token INT_LIT ''-3'']"
  using tokenize_minus_after_identifier [of "CHR ''1''" "CHR ''a''" "''b''" "''2;''"]
        tokenize_minus_after_identifier [of "CHR ''3''" "CHR ''7''" "[]" "[]"]
  by (simp add: isalpha_def isdigit_def isalnum_def emplace_back_def symbols_def isspace_def)

text \<open>
  Claim C9, as stated, at its own example: lexing \<^verbatim>\<open>x-1\<close> does not yield Identifier
  \<^verbatim>\<open>x\<close>, Symbol \<^verbatim>\<open>-\<close>, IntLit \<^verbatim>\<open>1\<close>.
\<close>

theorem tokenize_x_minus_1_counterexample:
  "tokenize ''x-1'' \<noteq> Inr [Token IDENTIFIER ''x'', Token SYMBOL ''-'', Token INT_LIT ''1'']"
  by (simp add: isalpha_def isdigit_def isalnum_def emplace_back_def)

section \<open>The interpreter lets the scope chain only grow\<close>

lemma subdom_refl: "list_all2 (\<lambda>a b. dom a \<subseteq> dom b) chain chain"
  by (rule list_all2_refl) simp

lemma subdom_trans:
  "list_all2 (\<lambda>a b. dom a \<subseteq> dom b) c1 c2 \<Longrightarrow> list_all2 (\<lambda>a b. dom a \<subseteq> dom b) c2 c3
   \<Longrightarrow> list_all2 (\<lambda>a b. dom a \<subseteq> dom b) c1 c3"
  by (erule (1) list_all2_trans [rotated]) blast

lemma grows_refl: "grows s s"
  by (simp add: grows_def subdom_refl)

lemma grows_trans: "grows a b \<Longrightarrow> grows b c \<Longrightarrow> grows a c"
  unfolding grows_def by (auto intro: subdom_trans)

lemma keepsD: "keeps m \<Longrightarrow> m s = (Inr r, s') \<Longrightarrow> grows s s'"
  by (auto simp: keeps_def)

lemma bindM_Inr:
  "bindM m f s = (Inr r, s') \<longleftrightarrow> (\<exists>v s1. m s = (Inr v, s1) \<and> f v s1 = (Inr r, s'))"
  by (auto simp: bindM_def split: prod.splits sum.splits)

lemma keeps_returnM: "keeps (returnM v)"
  by (simp add: keeps_def returnM_def grows_refl)

lemma keeps_throwM: "keeps (throwM e)"
  by (simp add: keeps_def throwM_def)

lemma keeps_liftM: "keeps (liftM r)"
  by (auto simp: keeps_def liftM_def grows_refl)

lemma keeps_bindM: "keeps m \<Longrightarrow> (\<And>v. keeps (f v)) \<Longrightarrow> keeps (bindM m f)"
  unfolding keeps_def bindM_Inr by (blast intro: grows_trans)

lemma keeps_lockScope: "keeps (lockScope what)"
  by (auto simp: keeps_def lockScope_def grows_refl split: list.splits)

lemma keeps_defineM: "keeps (defineM name val)"
  by (auto simp: keeps_def defineM_def grows_def Scope_define_def subdom_refl
           split: list.splits)

lemma keeps_print_cout: "keeps (print_cout str)"
  by (simp add: keeps_def print_cout_def grows_def subdom_refl)

lemma keeps_readCode: "keeps (readCode path)"
  by (auto simp: keeps_def readCode_def grows_def subdom_refl split: option.splits)

lemma keeps_getCharImmediate: "keeps getCharImmediate"
  by (auto simp: keeps_def getCharImmediate_def grows_def subdom_refl
           split: list.splits if_splits)

lemma keeps_clearTerminal: "keeps clearTerminal"
  by (simp add: keeps_def clearTerminal_def grows_def subdom_refl)

lemma Scope_set_dom:
  "Scope_set chain name val = Inr chain' \<Longrightarrow> list_all2 (\<lambda>a b. dom a \<subseteq> dom b) chain chain'"
  by (induction chain name val arbitrary: chain' rule: Scope_set.induct)
     (auto simp: subdom_refl split: if_splits sum.splits)

lemma keeps_Scope_set:
  "keeps (bindM (lockScope what) (\<lambda>chain. bindM (liftM (Scope_set chain name val)) putScope))"
  by (auto simp: keeps_def bindM_Inr lockScope_def liftM_def putScope_def grows_def
           simp del: Scope_set.simps intro: Scope_set_dom split: list.splits)

lemma pushed_grows:
  "grows (s\<lparr>scopes := Map.empty # scopes s\<rparr>) s1 \<Longrightarrow> grows s (s1\<lparr>scopes := tl (scopes s1)\<rparr>)"
  by (auto simp: grows_def list_all2_Cons1)

lemmas keeps_intros = keeps_bindM keeps_returnM keeps_throwM keeps_liftM keeps_lockScope
  keeps_defineM keeps_print_cout keeps_readCode keeps_getCharImmediate keeps_clearTerminal

lemma keeps_define_parameters: "keeps (define_parameters params arguments)"
  by (induction params arguments rule: define_parameters.induct)
     (auto intro!: keeps_intros)

lemma keeps_calls:
  assumes "calls_keep self"
  shows "keeps (callExpression self e)" "keeps (callFunctionCall self c)"
    "keeps (callBody self b)" "keeps (callWhile self w)" "keeps (callIf self i)"
  using assms by (auto simp: calls_keep_def)


lemma scoped_grows:
  "grows (s\<lparr>scopes := Map.empty # scopes s\<rparr>) s2 \<Longrightarrow> grows (s2\<lparr>scopes := tl (scopes s2)\<rparr>) s'
   \<Longrightarrow> grows s s'"
  by (blast intro: grows_trans pushed_grows)

lemma keeps_interpretParameters:
  "calls_keep self \<Longrightarrow> keeps (interpretParameters self parameters)"
  by (induction parameters) (auto intro!: keeps_intros keeps_calls)

lemma keeps_interpretArray: "calls_keep self \<Longrightarrow> keeps (interpretArray self array)"
  by (auto simp: interpretArray_def intro!: keeps_intros keeps_calls
           split: ArrayNode.split binding.split)

lemma keeps_interpretArithmetic:
  "calls_keep self \<Longrightarrow> keeps (interpretArithmetic self arithmetic)"
  by (auto simp: interpretArithmetic_def intro!: keeps_intros keeps_calls
           split: option.split ArithmeticType.split)

lemma keeps_applyMethod:
  "calls_keep self \<Longrightarrow> keeps (applyMethod self val identifier parameters)"
  by (auto simp: applyMethod_def intro!: keeps_intros keeps_interpretParameters)

lemma keeps_interpretArrayRangeBound:
  "calls_keep self \<Longrightarrow> keeps (interpretArrayRangeBound self bound)"
  by (auto simp: interpretArrayRangeBound_def Let_def intro!: keeps_intros keeps_calls
           split: Bound.split)

lemma keeps_interpretArrayRange:
  "calls_keep self \<Longrightarrow> keeps (interpretArrayRange self rangeStart rangeEnd val)"
  by (auto simp: interpretArrayRange_def Let_def
           intro!: keeps_intros keeps_interpretArrayRangeBound)

lemma keeps_applyPostfix: "calls_keep self \<Longrightarrow> keeps (applyPostfix self val postfixes)"
  by (induction postfixes arbitrary: val)
     (auto intro!: keeps_intros keeps_interpretArrayRange keeps_applyMethod
           split: Postfix.split)

lemma keeps_interpretExpression:
  "calls_keep self \<Longrightarrow> keeps (interpretExpression self expression)"
  by (auto simp: interpretExpression_def
           intro!: keeps_intros keeps_interpretArithmetic keeps_interpretArray
                   keeps_applyPostfix
           split: Primary.split)

lemma keeps_interpretVariableDeclaration:
  "calls_keep self \<Longrightarrow> keeps (interpretVariableDeclaration self variableDeclaration)"
  by (auto simp: interpretVariableDeclaration_def
           intro!: keeps_intros keeps_interpretExpression split: option.split)

lemma keeps_interpretVariableAssignment:
  "calls_keep self \<Longrightarrow> keeps (interpretVariableAssignment self variableAssignment)"
  by (auto simp: interpretVariableAssignment_def
           intro!: keeps_intros keeps_interpretExpression keeps_Scope_set)

lemma keeps_interpretVariableBinding:
  "calls_keep self \<Longrightarrow> keeps (interpretVariableBinding self variableBinding)"
  by (auto simp: interpretVariableBinding_def
           intro!: keeps_interpretVariableDeclaration keeps_interpretVariableAssignment
           split: VariableBindingNode.split)

lemma keeps_interpretIfDeclaration:
  "calls_keep self \<Longrightarrow> keeps (interpretIfDeclaration self declaration)"
  by (auto simp: interpretIfDeclaration_def Let_def
           intro!: keeps_intros keeps_interpretExpression keeps_interpretVariableDeclaration
           split: option.split)

lemma keeps_interpretIfCompare:
  "calls_keep self \<Longrightarrow> keeps (interpretIfCompare self condition)"
  by (auto simp: interpretIfCompare_def intro!: keeps_intros keeps_interpretExpression)

lemma keeps_interpretIfCondition:
  "calls_keep self \<Longrightarrow> keeps (interpretIfCondition self variantCondition)"
  by (auto simp: interpretIfCondition_def
           intro!: keeps_interpretIfCompare keeps_interpretIfDeclaration
           split: Condition.split)

lemma keeps_while_loop: "calls_keep self \<Longrightarrow> keeps (while_loop self whileNode)"
  by (auto simp: while_loop_def intro!: keeps_intros keeps_calls keeps_interpretIfCondition
           split: option.split)

lemma keeps_interpretWhile:
  assumes "calls_keep self"
  shows "keeps (interpretWhile self whileNode)"
  unfolding keeps_def
proof (intro allI impI)
  fix s r s'
  assume "interpretWhile self whileNode s = (Inr r, s')"
  then obtain s2 where
    loop: "while_loop self whileNode (s\<lparr>scopes := Map.empty # scopes s\<rparr>) = (Inr r, s2)"
    and s': "s' = s2\<lparr>scopes := tl (scopes s2)\<rparr>"
    by (auto simp: interpretWhile_def bindM_Inr pushScope_def popScope_def returnM_def)
  from keepsD [OF keeps_while_loop [OF assms] loop] show "grows s s'"
    unfolding s' by (rule pushed_grows)
qed

lemma keeps_for_loop:
  assumes "calls_keep self"
  shows "keeps (for_loop self forLoop elements)"
proof (induction elements)
  case Nil
  show ?case by (simp add: keeps_returnM)
next
  case (Cons element elements)
  show ?case
    unfolding keeps_def
  proof (intro allI impI)
    fix s r s'
    assume "for_loop self forLoop (element # elements) s = (Inr r, s')"
    then obtain s1 s2 returnValue where
      d: "defineM (getElement forLoop) (BValue (Value (Dynamic [element]) 1))
            (s\<lparr>scopes := Map.empty # scopes s\<rparr>) = (Inr (), s1)"
      and b: "callBody self (forBody forLoop) s1 = (Inr returnValue, s2)"
      and k: "(case returnValue of
                 Some v \<Rightarrow> returnM (Some v)
               | None \<Rightarrow> for_loop self forLoop elements) (s2\<lparr>scopes := tl (scopes s2)\<rparr>)
              = (Inr r, s')"
      by (auto simp: bindM_Inr pushScope_def popScope_def)
    have "grows (s\<lparr>scopes := Map.empty # scopes s\<rparr>) s2"
      using keepsD [OF keeps_defineM d] keepsD [OF keeps_calls(3) [OF assms] b]
      by (rule grows_trans)
    moreover have "grows (s2\<lparr>scopes := tl (scopes s2)\<rparr>) s'"
      using k Cons.IH by (cases returnValue) (auto simp: returnM_def grows_refl dest: keepsD)
    ultimately show "grows s s'" by (rule scoped_grows)
  qed
qed

lemma keeps_interpretForLoop: "calls_keep self \<Longrightarrow> keeps (interpretForLoop self forLoop)"
  by (auto simp: interpretForLoop_def
           intro!: keeps_intros keeps_interpretExpression keeps_for_loop)

lemma keeps_interpretIf:
  assumes "calls_keep self"
  shows "keeps (interpretIf self ifNode)"
  unfolding keeps_def
proof (intro allI impI)
  fix s r s'
  assume "interpretIf self ifNode s = (Inr r, s')"
  then obtain s2 where
    inner: "bindM (interpretIfCondition self (ifCondition ifNode)) (\<lambda>isConditionTrue.
              if isConditionTrue then
                bindM (callBody self (ifBody ifNode)) (\<lambda>r. returnM (r, True))
              else
                bindM (case getElseIfBranches ifNode of
                         None \<Rightarrow> returnM (None, False)
                       | Some elseIf \<Rightarrow> callIf self elseIf) (\<lambda>elseIfResult.
                  if snd elseIfResult then returnM (fst elseIfResult, True)
                  else (case getElseBody ifNode of
                          Some elseBody \<Rightarrow>
                            bindM (callBody self elseBody) (\<lambda>r. returnM (r, True))
                        | None \<Rightarrow> returnM (None, False))))
            (s\<lparr>scopes := Map.empty # scopes s\<rparr>) = (Inr r, s2)"
    and s': "s' = s2\<lparr>scopes := tl (scopes s2)\<rparr>"
    by (auto simp: interpretIf_def bindM_Inr pushScope_def popScope_def returnM_def)
  have "keeps (bindM (interpretIfCondition self (ifCondition ifNode)) (\<lambda>isConditionTrue.
              if isConditionTrue then
                bindM (callBody self (ifBody ifNode)) (\<lambda>r. returnM (r, True))
              else
                bindM (case getElseIfBranches ifNode of
                         None \<Rightarrow> returnM (None, False)
                       | Some elseIf \<Rightarrow> callIf self elseIf) (\<lambda>elseIfResult.
                  if snd elseIfResult then returnM (fst elseIfResult, True)
                  else (case getElseBody ifNode of
                          Some elseBody \<Rightarrow>
                            bindM (callBody self elseBody) (\<lambda>r. returnM (r, True))
                        | None \<Rightarrow> returnM (None, False)))))"
    using assms
    by (auto intro!: keeps_intros keeps_calls keeps_interpretIfCondition split: option.split)
  from keepsD [OF this inner] show "grows s s'"
    unfolding s' by (rule pushed_grows)
qed


lemma keeps_interpretReturn: "calls_keep self \<Longrightarrow> keeps (interpretReturn self returnNode)"
  by (simp add: interpretReturn_def keeps_interpretExpression)

lemma keeps_interpretPrint: "calls_keep self \<Longrightarrow> keeps (interpretPrint self functionCall)"
  by (auto simp: interpretPrint_def intro!: keeps_intros keeps_interpretExpression)

lemma keeps_interpretRead: "calls_keep self \<Longrightarrow> keeps (interpretRead self functionCall)"
  by (auto simp: interpretRead_def
           intro!: keeps_intros keeps_interpretExpression keeps_interpretArray)

lemma keeps_interpretGetchar:
  "calls_keep self \<Longrightarrow> keeps (interpretGetchar self functionCall)"
  by (auto simp: interpretGetchar_def intro!: keeps_intros keeps_interpretArray)

lemma keeps_interpretClear: "keeps (interpretClear functionCall)"
  by (auto simp: interpretClear_def intro!: keeps_intros)

lemma keeps_interpretRange: "calls_keep self \<Longrightarrow> keeps (interpretRange self functionCall)"
  by (auto simp: interpretRange_def Let_def intro!: keeps_intros keeps_interpretExpression)

lemma keeps_interpretExit: "calls_keep self \<Longrightarrow> keeps (interpretExit self functionCall)"
  by (auto simp: interpretExit_def intro!: keeps_intros keeps_interpretExpression
           split: list.split)

lemma keeps_user_call:
  assumes "calls_keep self"
  shows "keeps (bindM (interpretParameters self parameters) (\<lambda>arguments.
               bindM pushScope (\<lambda>_.
                 let params = getParams functionDefinition
                 in if length params \<noteq> length arguments
                    then throwM (ArityMismatch (fnIdentifier functionDefinition)
                                   (length params) (length arguments))
                    else bindM (define_parameters params arguments) (\<lambda>_.
                         bindM (callBody self (getBody functionDefinition)) (\<lambda>returnValue.
                         bindM popScope (\<lambda>_.
                           returnM (case returnValue of
                                      Some v \<Rightarrow> v
                                    | None \<Rightarrow> Value (Dynamic []) 0)))))))"
  unfolding keeps_def
proof (intro allI impI)
  fix s r s'
  assume "bindM (interpretParameters self parameters) (\<lambda>arguments.
               bindM pushScope (\<lambda>_.
                 let params = getParams functionDefinition
                 in if length params \<noteq> length arguments
                    then throwM (ArityMismatch (fnIdentifier functionDefinition)
                                   (length params) (length arguments))
                    else bindM (define_parameters params arguments) (\<lambda>_.
                         bindM (callBody self (getBody functionDefinition)) (\<lambda>returnValue.
                         bindM popScope (\<lambda>_.
                           returnM (case returnValue of
                                      Some v \<Rightarrow> v
                                    | None \<Rightarrow> Value (Dynamic []) 0)))))) s = (Inr r, s')"
  then obtain arguments s1 s2 s3 returnValue where
    a: "interpretParameters self parameters s = (Inr arguments, s1)"
    and d: "define_parameters (getParams functionDefinition) arguments
              (s1\<lparr>scopes := Map.empty # scopes s1\<rparr>) = (Inr (), s2)"
    and b: "callBody self (getBody functionDefinition) s2 = (Inr returnValue, s3)"
    and s': "s' = s3\<lparr>scopes := tl (scopes s3)\<rparr>"
    by (auto simp: bindM_Inr pushScope_def popScope_def returnM_def throwM_def Let_def
             split: if_splits)
  have "grows (s1\<lparr>scopes := Map.empty # scopes s1\<rparr>) s3"
    using keepsD [OF keeps_define_parameters d] keepsD [OF keeps_calls(3) [OF assms] b]
    by (rule grows_trans)
  then have "grows s1 s'"
    unfolding s' by (rule pushed_grows)
  with keepsD [OF keeps_interpretParameters [OF assms] a] show "grows s s'"
    by (rule grows_trans)
qed

lemma keeps_interpretFunctionCall:
  "calls_keep self \<Longrightarrow> keeps (interpretFunctionCall self functionCall)"
  unfolding interpretFunctionCall_def
  by (auto intro!: keeps_intros keeps_user_call keeps_interpretPrint keeps_interpretRead
                   keeps_interpretGetchar keeps_interpretClear keeps_interpretRange
                   keeps_interpretExit
           split: binding.split)

lemma keeps_interpretStatement:
  "calls_keep self \<Longrightarrow> keeps (interpretStatement self statement)"
  by (auto simp: interpretStatement_def
           intro!: keeps_intros keeps_interpretVariableBinding keeps_interpretForLoop
                   keeps_interpretWhile keeps_interpretIf keeps_interpretFunctionCall
                   keeps_interpretReturn
           split: StatementNode.split)

lemma keeps_interpretBody: "calls_keep self \<Longrightarrow> keeps (interpretBody self statements)"
  by (induction statements)
     (auto intro!: keeps_intros keeps_interpretStatement split: option.split)

lemma calls_keep_interp: "calls_keep (interp fuel)"
proof (induction fuel)
  case 0
  show ?case by (simp add: calls_keep_def keeps_throwM)
next
  case (Suc fuel)
  then show ?case
    by (simp add: calls_keep_def Let_def keeps_interpretExpression
          keeps_interpretFunctionCall keeps_interpretBody keeps_while_loop keeps_interpretIf)
qed

section \<open>Properties of the interpreter\<close>

lemma interpretArray_Ints:
  "scopes s \<noteq> [] \<Longrightarrow> interpretArray self (Ints xs) s = (Inr (Value (Vector xs) (length xs)), s)"
  by (cases "scopes s") (simp_all add: interpretArray_def bindM_def lockScope_def returnM_def)

lemma interpretExpression_Ints:
  "scopes s \<noteq> [] \<Longrightarrow>
   interpretExpression self (ExpressionNode (Array (Ints xs)) []) s =
     (Inr (Value (Vector xs) (length xs)), s)"
  by (simp add: interpretExpression_def interpretArray_Ints bindM_def returnM_def)

lemma grows_nonempty: "grows s s' \<Longrightarrow> scopes s \<noteq> [] \<Longrightarrow> scopes s' \<noteq> []"
  by (auto simp: grows_def)

lemma Scope_hasRecursive_mono:
  "list_all2 (\<lambda>a b. dom a \<subseteq> dom b) c c' \<Longrightarrow> Scope_hasRecursive c x \<Longrightarrow> Scope_hasRecursive c' x"
  by (induction c c' rule: list_all2_induct) (auto simp: Scope_has_def split: if_splits)


subsection \<open>Range postfix\<close>





subsection \<open>The built-in \<^verbatim>\<open>range\<close> and the method \<^verbatim>\<open>size\<close>\<close>

text \<open>
  Claim C8.  Where no user-defined function is called \<^verbatim>\<open>range\<close>, the call of \<^verbatim>\<open>range\<close> on an
  argument that evaluates to the one-element array \<open>[N]\<close> with \<open>N\<close> not negative yields the
  array of length \<open>N\<close> whose element \<open>i\<close> is \<open>i\<close>, and \<^verbatim>\<open>range(...).size()\<close> yields \<open>[N]\<close>.
\<close>

theorem range_size:
  assumes "scopes s \<noteq> []" and "\<not> Scope_hasRecursive (scopes s) ''range''"
    and "interpretExpression (interp fuel) arg s = (Inr v, s')"
    and "fromValue v = [N]" and "\<not> N <s 0"
  shows "(\<exists>r. interpretExpression (interp (Suc fuel))
               (ExpressionNode (Array (Call (FunctionCallNode ''range'' [arg]))) []) s
             = (Inr r, s')
           \<and> getSize r = unat N \<and> (\<forall>i < unat N. fromValue r ! i = of_nat i))
       \<and> interpretExpression (interp (Suc fuel))
            (ExpressionNode (Array (Call (FunctionCallNode ''range'' [arg])))
               [MethodNode ''size'' []]) s
          = (Inr (Value (Dynamic [N]) 1), s')"
proof -
  have call: "interpretFunctionCall (interp fuel) (FunctionCallNode ''range'' [arg]) s =
      (Inr (Value (Dynamic (map of_nat [0..<unat N])) (unat N)), s')"
    using assms
    by (cases "scopes s")
       (simp_all add: interpretFunctionCall_def interpretRange_def bindM_def lockScope_def
          returnM_def Let_def)
  have arr: "interpretArray (interp (Suc fuel)) (Call (FunctionCallNode ''range'' [arg])) s =
      (Inr (Value (Dynamic (map of_nat [0..<unat N])) (unat N)), s')"
    using assms(1) call
    by (cases "scopes s") (simp_all add: interpretArray_def bindM_def lockScope_def Let_def)
  show ?thesis
    using arr
    by (simp add: interpretExpression_def bindM_def returnM_def applyMethod_def liftM_def
          applySize_def getSize_def)
qed

text \<open>The fourth scenario of the specification with the argument as an array: \<^verbatim>\<open>range([4]).size()\<close>.\<close>

theorem range_size_witness:
  "scopes one_scope \<noteq> [] \<and> \<not> Scope_hasRecursive (scopes one_scope) ''range''
   \<and> interpretExpression (interp 0) (ExpressionNode (Array (Ints [4])) []) one_scope
       = (Inr (Value (Vector [4]) 1), one_scope)
   \<and> \<not> (4 :: cint) <s 0
   \<and> interpretExpression (interp (Suc 0))
        (ExpressionNode
           (Array (Call (FunctionCallNode ''range'' [ExpressionNode (Array (Ints [4])) []])))
           []) one_scope
       = (Inr (Value (Dynamic [0, 1, 2, 3]) 4), one_scope)
   \<and> interpretExpression (interp (Suc 0))
        (ExpressionNode
           (Array (Call (FunctionCallNode ''range'' [ExpressionNode (Array (Ints [4])) []])))
           [MethodNode ''size'' []]) one_scope
       = (Inr (Value (Dynamic [4]) 1), one_scope)"
proof -
  have h1: "scopes one_scope \<noteq> []"
    and h2: "\<not> Scope_hasRecursive (scopes one_scope) ''range''"
    by (simp_all add: one_scope_def Scope_has_def)
  have h3: "interpretExpression (interp 0) (ExpressionNode (Array (Ints [4])) []) one_scope
       = (Inr (Value (Vector [4]) 1), one_scope)"
    using h1 by (simp add: interpretExpression_Ints)
  have h4: "fromValue (Value (Vector [4]) 1) = [4]" by simp
  have h5: "\<not> (4 :: cint) <s 0" by code_simp
  have list: "map of_nat [0..<unat (4 :: cint)] = [0, 1, 2, 3 :: cint]"
    by (simp add: upt_rec)
  from range_size [OF h1 h2 h3 h4 h5] obtain r where
    r: "interpretExpression (interp (Suc 0))
          (ExpressionNode
             (Array (Call (FunctionCallNode ''range'' [ExpressionNode (Array (Ints [4])) []])))
             []) one_scope = (Inr r, one_scope)"
    and size: "interpretExpression (interp (Suc 0))
        (ExpressionNode
           (Array (Call (FunctionCallNode ''range'' [ExpressionNode (Array (Ints [4])) []])))
           [MethodNode ''size'' []]) one_scope
       = (Inr (Value (Dynamic [4]) 1), one_scope)"
    by blast
  have "interpretExpression (interp (Suc 0))
          (ExpressionNode
             (Array (Call (FunctionCallNode ''range'' [ExpressionNode (Array (Ints [4])) []])))
             []) one_scope = (Inr (Value (Dynamic [0, 1, 2, 3]) 4), one_scope)"
    using h1 h2 h5 list
    by (simp add: interp_defs monadM_defs interp_calls Let_def one_scope_def initial_def
          del: interp.simps)
  with h1 h2 h3 h5 size show ?thesis by simp
qed

subsection \<open>Assignment\<close>

lemma Scope_set_get:
  "Scope_hasRecursive chain x \<Longrightarrow>
   \<exists>chain'. Scope_set chain x b = Inr chain' \<and> Scope_get chain' x = Inr b"
  by (induction chain) (auto simp: Scope_has_def split: option.splits)

text \<open>
  Claim C1.  What an assignment \<^verbatim>\<open>x = e\<close> does in the code.  Where \<open>x\<close> is defined and \<open>e\<close>
  evaluates to \<open>v\<close>, the assignment returns without an error, whatever the minimum of the
  value that \<open>x\<close> is bound to, and binds \<open>x\<close> to \<open>v\<close> as it is: the contents of \<open>v\<close> and
  the minimum of \<open>v\<close>.  \<^verbatim>\<open>Scope::set\<close> replaces the pointer that the scope holds for \<open>x\<close>, and
  \<^verbatim>\<open>Value::operator=\<close>, which compares the minimum with the length, is not called.
\<close>

theorem interpretVariableAssignment_rebinds:
  assumes "Scope_hasRecursive (scopes s) x"
    and "interpretExpression (interp fuel) e s = (Inr v, s1)"
  shows "\<exists>chain'. interpretVariableAssignment (interp fuel) (VariableAssignmentNode x e) s
                    = (Inr (), s1\<lparr>scopes := chain'\<rparr>)
                 \<and> Scope_get chain' x = Inr (BValue v)"
proof -
  have g: "grows s s1"
    using keepsD [OF keeps_interpretExpression [OF calls_keep_interp] assms(2)] .
  then have has: "Scope_hasRecursive (scopes s1) x"
    using assms(1) by (auto simp: grows_def elim: Scope_hasRecursive_mono)
  from assms(1) have ne: "scopes s \<noteq> []" by auto
  with g have ne1: "scopes s1 \<noteq> []" by (rule grows_nonempty)
  from Scope_set_get [OF has] obtain chain' where
    c: "Scope_set (scopes s1) x (BValue v) = Inr chain'" "Scope_get chain' x = Inr (BValue v)"
    by blast
  have "interpretVariableAssignment (interp fuel) (VariableAssignmentNode x e) s
          = (Inr (), s1\<lparr>scopes := chain'\<rparr>)"
    using assms ne ne1 c(1)
    by (cases "scopes s"; cases "scopes s1")
       (simp_all add: interpretVariableAssignment_def bindM_def lockScope_def liftM_def
          putScope_def del: Scope_set.simps Scope_hasRecursive.simps)
  with c(2) show ?thesis by blast
qed

text \<open>
  \<^verbatim>\<open>g = [1]\<close> where \<^verbatim>\<open>g\<close> is bound to the growable value \<^verbatim>\<open>[1,2,3]\<close> with minimum 3: the
  assignment returns, and \<^verbatim>\<open>g\<close> is bound to \<^verbatim>\<open>[1]\<close> with minimum 1.
\<close>

theorem interpretVariableAssignment_rebinds_witness:
  "Scope_hasRecursive (scopes g_bound) ''g''
   \<and> Scope_get (scopes g_bound) ''g'' = Inr (BValue (Value (Vector [1, 2, 3]) 3))
   \<and> interpretExpression (interp 0) (ExpressionNode (Array (Ints [1])) []) g_bound
       = (Inr (Value (Vector [1]) 1), g_bound)
   \<and> interpretVariableAssignment (interp 0)
        (VariableAssignmentNode ''g'' (ExpressionNode (Array (Ints [1])) [])) g_bound
       = (Inr (), g_bound\<lparr>scopes := [Map.empty(''g'' \<mapsto> BValue (Value (Vector [1]) 1))]\<rparr>)"
proof -
  have h1: "Scope_hasRecursive (scopes g_bound) ''g''"
    and g: "Scope_get (scopes g_bound) ''g'' = Inr (BValue (Value (Vector [1, 2, 3]) 3))"
    by (simp_all add: g_bound_def Scope_has_def)
  have h2: "interpretExpression (interp 0) (ExpressionNode (Array (Ints [1])) []) g_bound
              = (Inr (Value (Vector [1]) 1), g_bound)"
    by (simp add: interpretExpression_Ints g_bound_def)
  from interpretVariableAssignment_rebinds [OF h1 h2] obtain chain' where
    "interpretVariableAssignment (interp 0)
        (VariableAssignmentNode ''g'' (ExpressionNode (Array (Ints [1])) [])) g_bound
       = (Inr (), g_bound\<lparr>scopes := chain'\<rparr>)"
    by blast
  moreover have "interpretVariableAssignment (interp 0)
        (VariableAssignmentNode ''g'' (ExpressionNode (Array (Ints [1])) [])) g_bound
       = (Inr (), g_bound\<lparr>scopes := [Map.empty(''g'' \<mapsto> BValue (Value (Vector [1]) 1))]\<rparr>)"
    by (simp add: interpretVariableAssignment_def interpretExpression_Ints bindM_def
          lockScope_def liftM_def putScope_def Scope_has_def g_bound_def)
  ultimately show ?thesis
    using h1 g h2 by simp
qed

text \<open>\<^verbatim>\<open>Value::operator=\<close> on the same two values throws.\<close>

lemma assign_below_minimum:
  "assign (Value (Vector [1, 2, 3]) 3) (Value (Vector [1]) 1) = Inl CannotSetMinimum"
  by simp

subsection \<open>Function calls\<close>

lemma same_frame:
  "scopes s = frame # chain \<Longrightarrow>
   \<exists>frame'. s = s\<lparr>scopes := frame' # chain\<rparr> \<and> dom frame' \<subseteq> dom frame \<union> names"
  "scopes s = frame # chain \<Longrightarrow>
   \<exists>frame'. s = s\<lparr>scopes := frame' # chain\<rparr> \<and> dom frame' \<subseteq> dom frame"
  by (rule exI [of _ frame]; auto)+

lemma define_parameters_frame:
  "define_parameters params arguments s = (Inr (), s') \<Longrightarrow> scopes s = frame # chain \<Longrightarrow>
   \<exists>frame'. s' = s\<lparr>scopes := frame' # chain\<rparr>
          \<and> dom frame' \<subseteq> dom frame \<union> paramIdentifier ` set params"
proof (induction params arguments arbitrary: s frame rule: define_parameters.induct)
  case (1 param params argument arguments)
  from "1.prems"(1) obtain v s1 where
    v: "fromDescriptor (paramDescriptor param) (Some argument) = Inr v"
    and d: "defineM (paramIdentifier param) (BValue v) s = (Inr (), s1)"
    and rest: "define_parameters params arguments s1 = (Inr (), s')"
    by (auto simp: bindM_Inr liftM_def)
  from d "1.prems"(2)
  have s1: "s1 = s\<lparr>scopes := Scope_define frame (paramIdentifier param) (BValue v) # chain\<rparr>"
    by (simp add: defineM_def)
  then have "scopes s1 = Scope_define frame (paramIdentifier param) (BValue v) # chain"
    by simp
  from "1.IH" [OF rest this] obtain frame' where
    f: "s' = s1\<lparr>scopes := frame' # chain\<rparr>"
       "dom frame' \<subseteq> dom (Scope_define frame (paramIdentifier param) (BValue v))
                      \<union> paramIdentifier ` set params"
    by blast
  have "dom (Scope_define frame (paramIdentifier param) (BValue v))
          \<subseteq> dom frame \<union> {paramIdentifier param}"
    by (auto simp: Scope_define_def split: if_splits)
  with f show ?case
    unfolding s1 by (intro exI [of _ frame']) auto
qed (auto simp: returnM_def intro: same_frame)

text \<open>
  Claim C3.  A call of a user-defined function \<open>f\<close> evaluates the arguments in the caller's
  scope, which leaves the state \<open>s1\<close>, binds the parameters in a fresh scope on top of the
  chain of \<open>s1\<close>, which gives \<open>s2\<close>, and evaluates the body in \<open>s2\<close>: the parent of the
  callee's scope is the caller's scope, and a name that is not a parameter resolves in the
  callee's body as it does at the call site.
\<close>

theorem call_scope_is_child_of_caller:
  assumes "Scope_hasRecursive (scopes s) f"
    and "Scope_get (scopes s) f = Inr (BFunction fd)"
    and "interpretParameters self args s = (Inr arguments, s1)"
    and "length (getParams fd) = length arguments"
    and "define_parameters (getParams fd) arguments (s1\<lparr>scopes := Map.empty # scopes s1\<rparr>)
           = (Inr (), s2)"
  shows "interpretFunctionCall self (FunctionCallNode f args) s =
           (case callBody self (getBody fd) s2 of
              (Inl e, s3) \<Rightarrow> (Inl e, s3)
            | (Inr returnValue, s3) \<Rightarrow>
                (Inr (case returnValue of Some v \<Rightarrow> v | None \<Rightarrow> Value (Dynamic []) 0),
                 s3\<lparr>scopes := tl (scopes s3)\<rparr>))
       \<and> tl (scopes s2) = scopes s1
       \<and> (\<forall>x. x \<notin> paramIdentifier ` set (getParams fd) \<longrightarrow>
              Scope_get (scopes s2) x = Scope_get (scopes s1) x
              \<and> Scope_hasRecursive (scopes s2) x = Scope_hasRecursive (scopes s1) x)"
proof -
  from assms(1) have ne: "scopes s \<noteq> []" by auto
  have call: "interpretFunctionCall self (FunctionCallNode f args) s =
           (case callBody self (getBody fd) s2 of
              (Inl e, s3) \<Rightarrow> (Inl e, s3)
            | (Inr returnValue, s3) \<Rightarrow>
                (Inr (case returnValue of Some v \<Rightarrow> v | None \<Rightarrow> Value (Dynamic []) 0),
                 s3\<lparr>scopes := tl (scopes s3)\<rparr>))"
    using assms ne
    by (cases "scopes s")
       (auto simp: interpretFunctionCall_def bindM_def lockScope_def liftM_def pushScope_def
          popScope_def returnM_def Let_def
          simp del: Scope_hasRecursive.simps Scope_get.simps
          split: prod.splits sum.splits)
  from define_parameters_frame [OF assms(5), of Map.empty "scopes s1"] obtain frame' where
    f: "s2 = s1\<lparr>scopes := frame' # scopes s1\<rparr>"
       "dom frame' \<subseteq> paramIdentifier ` set (getParams fd)"
    by auto
  have "\<forall>x. x \<notin> paramIdentifier ` set (getParams fd) \<longrightarrow>
              Scope_get (scopes s2) x = Scope_get (scopes s1) x
              \<and> Scope_hasRecursive (scopes s2) x = Scope_hasRecursive (scopes s1) x"
  proof (intro allI impI)
    fix x assume "x \<notin> paramIdentifier ` set (getParams fd)"
    with f(2) have "frame' x = None" by blast
    then show "Scope_get (scopes s2) x = Scope_get (scopes s1) x
              \<and> Scope_hasRecursive (scopes s2) x = Scope_hasRecursive (scopes s1) x"
      by (simp add: f(1) Scope_has_def)
  qed
  with call f(1) show ?thesis by simp
qed

text \<open>
  \<^verbatim>\<open>f\<close> is defined in the root scope and returns \<^verbatim>\<open>x\<close>, which only the caller's scope has:
  the call returns the caller's \<^verbatim>\<open>x\<close>.
\<close>

theorem call_scope_is_child_of_caller_witness:
  "Scope_hasRecursive (scopes caller_state) ''f''
   \<and> Scope_get (scopes caller_state) ''f'' = Inr (BFunction returns_x)
   \<and> interpretParameters (interp (Suc 0)) [] caller_state = (Inr [], caller_state)
   \<and> length (getParams returns_x) = length ([] :: Value list)
   \<and> define_parameters (getParams returns_x) []
        (caller_state\<lparr>scopes := Map.empty # scopes caller_state\<rparr>)
       = (Inr (), caller_state\<lparr>scopes := Map.empty # scopes caller_state\<rparr>)
   \<and> interpretFunctionCall (interp (Suc 0)) (FunctionCallNode ''f'' []) caller_state
       = (Inr (Value (Vector [7]) 1), caller_state)"
proof -
  have h1: "Scope_hasRecursive (scopes caller_state) ''f''"
    by (simp add: caller_state_def Scope_has_def)
  have h2: "Scope_get (scopes caller_state) ''f'' = Inr (BFunction returns_x)"
    by (simp add: caller_state_def)
  have h3: "interpretParameters (interp (Suc 0)) [] caller_state = (Inr [], caller_state)"
    by (simp add: returnM_def)
  have h4: "length (getParams returns_x) = length ([] :: Value list)"
    by (simp add: returns_x_def)
  have h5: "define_parameters (getParams returns_x) []
        (caller_state\<lparr>scopes := Map.empty # scopes caller_state\<rparr>)
       = (Inr (), caller_state\<lparr>scopes := Map.empty # scopes caller_state\<rparr>)"
    by (simp add: returns_x_def returnM_def)
  have body: "callBody (interp (Suc 0)) (getBody returns_x)
        (caller_state\<lparr>scopes := Map.empty # scopes caller_state\<rparr>)
       = (Inr (Some (Value (Vector [7]) 1)),
          caller_state\<lparr>scopes := Map.empty # scopes caller_state\<rparr>)"
    by (simp add: returns_x_def caller_state_def Let_def interpretStatement_def
          interpretReturn_def interpretExpression_def interpretArray_def bindM_def
          lockScope_def liftM_def returnM_def)
  from call_scope_is_child_of_caller [OF h1 h2 h3 h4 h5]
  have "interpretFunctionCall (interp (Suc 0)) (FunctionCallNode ''f'' []) caller_state
       = (Inr (Value (Vector [7]) 1), caller_state)"
    by (simp add: body del: interp.simps)
  with h1 h2 h3 h4 h5 show ?thesis by simp
qed

subsection \<open>Declarations in a \<^verbatim>\<open>while\<close> loop\<close>







section \<open>Runs of the example programs\<close>

lemma hi_tokenize: "tokenize hi_program = Inr hi_tokens"
  by (simp add: hi_program_def hi_tokens_def lexer_defs)

lemma hi_parse: "RootNode_parse (Suc (Suc (Suc fuel))) hi_tokens = Inr hi_items"
  unfolding hi_tokens_def hi_items_def
  by (simp add: parser_defs monadP_defs parser_calls Let_def del: parser.simps)

lemma one_parameter_tokenize: "tokenize one_parameter_program = Inr one_parameter_tokens"
  by (simp add: one_parameter_program_def one_parameter_tokens_def lexer_defs)

lemma one_parameter_parse:
  "RootNode_parse (Suc (Suc (Suc fuel))) one_parameter_tokens = Inr one_parameter_items"
  unfolding one_parameter_tokens_def one_parameter_items_def
  by (simp add: parser_defs monadP_defs parser_calls Let_def del: parser.simps)

text \<open>
  With one parameter, whatever its name, the call of \<^verbatim>\<open>main\<close> with the two arguments of
  \<^verbatim>\<open>interpret\<close> throws, which \<^verbatim>\<open>interpret\<close> reports before it exits with status 1.
\<close>

lemma main_one_parameter:
  assumes "files s path = Some one_parameter_program"
  shows "fst (main (Suc (Suc (Suc fuel))) [name, path] s) = ExitStatus 1
       \<and> cout (snd (main (Suc (Suc (Suc fuel))) [name, path] s)) = cout s
       \<and> cerr (snd (main (Suc (Suc (Suc fuel))) [name, path] s))
           = cerr s @ [ArityMismatch ''main'' 1 2]"
  using assms
  by (simp add: loader_defs one_parameter_tokenize one_parameter_parse one_parameter_items_def
        interp_defs monadM_defs interp_calls Let_def del: interp.simps parser.simps)

lemma while_tokenize: "tokenize while_program = Inr while_tokens"
  by (simp add: while_program_def while_tokens_def lexer_defs)

lemma while_parse:
  "RootNode_parse (Suc (Suc (Suc (Suc (Suc (Suc (Suc fuel))))))) while_tokens = Inr while_items"
  unfolding while_tokens_def while_items_def
  by (simp add: parser_defs monadP_defs parser_calls lexer_defs Let_def del: parser.simps)

text \<open>
  The loop runs twice, with \<^verbatim>\<open>i\<close> equal to \<^verbatim>\<open>"a"\<close> and to \<^verbatim>\<open>"b"\<close>, and prints \<^verbatim>\<open>x\<close> both
  times: the output is \<^verbatim>\<open>aa\<close>.
\<close>

lemma while_run:
  "files s path = Some while_program \<Longrightarrow>
   fst (main (Suc (Suc (Suc (Suc (Suc (Suc (Suc fuel))))))) [name, path] s) = ExitStatus 0
   \<and> cout (snd (main (Suc (Suc (Suc (Suc (Suc (Suc (Suc fuel))))))) [name, path] s))
       = cout s @ ''aa''"
  by (simp add: loader_defs while_tokenize while_parse while_items_def interp_defs monadM_defs
        value_defs interp_calls Let_def chars_of_codes del: interp.simps parser.simps)

lemma shrink_tokenize: "tokenize shrink_program = Inr shrink_tokens"
  by (simp add: shrink_program_def shrink_tokens_def lexer_defs)

lemma shrink_parse:
  "RootNode_parse (Suc (Suc (Suc (Suc (Suc fuel))))) shrink_tokens = Inr shrink_items"
  unfolding shrink_tokens_def shrink_items_def
  by (simp add: parser_defs monadP_defs parser_calls lexer_defs Let_def del: parser.simps)

text \<open>
  The declaration \<^verbatim>\<open>let g: [3+] = [1,2,3]\<close> followed by \<^verbatim>\<open>g = [1]\<close> runs to the end: the
  program prints the size of \<^verbatim>\<open>g\<close>, the byte 1, and exits with status 0.
\<close>

lemma shrink_run:
  "files s path = Some shrink_program \<Longrightarrow>
   fst (main (Suc (Suc (Suc (Suc (Suc fuel))))) [name, path] s) = ExitStatus 0
   \<and> cout (snd (main (Suc (Suc (Suc (Suc (Suc fuel))))) [name, path] s))
       = cout s @ [char_of (1 :: nat)]
   \<and> cerr (snd (main (Suc (Suc (Suc (Suc (Suc fuel))))) [name, path] s)) = cerr s"
  by (simp add: loader_defs shrink_tokenize shrink_parse shrink_items_def interp_defs
        monadM_defs value_defs interp_calls Let_def del: interp.simps parser.simps)




section \<open>Properties of the module loader and the entry point\<close>














text \<open>
  Claim C6.  The program \<^verbatim>\<open>fn main(a: [+], b: [+]) -> [+] { print("Hi"); }\<close>, run with no
  arguments after the path of the file, writes \<^verbatim>\<open>Hi\<close> to the standard output and exits with
  status 0.
\<close>

theorem main_prints_Hi:
  assumes "files s path = Some hi_program"
  shows "fst (main (Suc (Suc (Suc fuel))) [name, path] s) = ExitStatus 0
       \<and> cout (snd (main (Suc (Suc (Suc fuel))) [name, path] s)) = cout s @ ''Hi''"
  using assms
  by (simp add: loader_defs hi_tokenize hi_parse hi_items_def interp_defs monadM_defs
        interp_calls Let_def chars_of_codes del: interp.simps parser.simps)

theorem main_prints_Hi_witness:
  "files (one_file hi_program) ''p.ints'' = Some hi_program
   \<and> fst (main (Suc (Suc (Suc 0))) command_line (one_file hi_program)) = ExitStatus 0
   \<and> cout (snd (main (Suc (Suc (Suc 0))) command_line (one_file hi_program))) = ''Hi''"
proof -
  have h: "files (one_file hi_program) ''p.ints'' = Some hi_program"
    by (simp add: one_file_def initial_def)
  have "cout (one_file hi_program) = []"
    by (simp add: one_file_def initial_def)
  with h main_prints_Hi [OF h, of 0 "''ints''"] show ?thesis
    by (simp add: command_line_def)
qed

text \<open>
  The program as the first scenario of the specification writes it: the lexer throws at the
  \<^verbatim>\<open>_\<close>, outside the \<^verbatim>\<open>try\<close> block of \<^verbatim>\<open>interpret\<close>, so the process is terminated and nothing is
  written.  This holds with any fuel.
\<close>

lemma underscore_tokenize: "tokenize underscore_program = Inl (UnexpectedCharacter CHR ''_'')"
  by (simp add: underscore_program_def lexer_defs)

lemma main_underscore:
  assumes "files s path = Some underscore_program"
  shows "main (Suc fuel) [name, path] s
           = (Terminated (UnexpectedCharacter CHR ''_''),
              s\<lparr>scopes := [Map.empty], opened := opened s @ [path], interpretedFiles := []\<rparr>)"
  using assms
  by (simp add: loader_defs underscore_tokenize monadM_defs Let_def readCode_def
        del: interp.simps parser.simps)

theorem main_underscore_counterexample:
  "fst (main (Suc (Suc (Suc 0))) command_line (one_file underscore_program))
     = Terminated (UnexpectedCharacter CHR ''_'')
   \<and> cout (snd (main (Suc (Suc (Suc 0))) command_line (one_file underscore_program))) = []"
proof -
  have "files (one_file underscore_program) ''p.ints'' = Some underscore_program"
    by (simp add: one_file_def initial_def)
  from main_underscore [OF this, of "Suc (Suc 0)" "''ints''"] show ?thesis
    by (simp add: command_line_def) (simp add: one_file_def initial_def)
qed

end
